theory Spec2Isabelle
  imports
    Complex_Main
    "HOL-Library.Sublist"
    "HOL-Library.Char_ord"
    "HOL-Library.List_Lexorder"
begin

section \<open>JavaScript values used by the sources\<close>

text \<open>
  A JavaScript string is modelled as a \<^typ>\<open>string\<close>: the list of its code units, in
  the 8-bit range. Comparison of strings is by code unit, position by position, a proper
  prefix being smaller: the order of \<^theory_text>\<open>List_Lexorder\<close> over \<^theory_text>\<open>Char_ord\<close>.
  A property that may be \<open>undefined\<close> is an \<^typ>\<open>'a option\<close>.
\<close>

text \<open>Truthiness of a value of type \<open>string | undefined\<close>: undefined and the empty
  string are falsy.\<close>

definition truthy :: "string option \<Rightarrow> bool" where
  "truthy v = (case v of None \<Rightarrow> False | Some s \<Rightarrow> s \<noteq> [])"

text \<open>\<open>a || b\<close> on two values of type \<open>string | undefined\<close>.\<close>

definition js_or :: "string option \<Rightarrow> string option \<Rightarrow> string option" where
  "js_or a b = (if truthy a then a else b)"

text \<open>\<open>a || "literal"\<close>: the result is a string.\<close>

definition or_default :: "string option \<Rightarrow> string \<Rightarrow> string" where
  "or_default a d = (case a of None \<Rightarrow> d | Some s \<Rightarrow> if s \<noteq> [] then s else d)"

text \<open>\<open>s.endsWith(searchString)\<close>.\<close>

definition endsWith :: "string \<Rightarrow> string \<Rightarrow> bool" where
  "endsWith s searchString = suffix searchString s"

text \<open>The process environment \<open>process.env\<close>: a variable is unset (\<open>undefined\<close>) or
  holds a string.\<close>

type_synonym environment = "string \<Rightarrow> string option"


text \<open>
  A JavaScript number: a finite value, an infinity or NaN. Only the comparison with zero
  is used by the sources; every comparison with NaN is false.
\<close>

datatype number = Finite rat | PosInfinity | NegInfinity | NaN

fun greater_than_zero :: "number \<Rightarrow> bool" where
  "greater_than_zero (Finite r) = (0 < r)"
| "greater_than_zero PosInfinity = True"
| "greater_than_zero NegInfinity = False"
| "greater_than_zero NaN = False"

text \<open>\<open>s.trim()\<close>: white space and line terminators are removed at both ends.\<close>

definition js_whitespace :: "char \<Rightarrow> bool" where
  "js_whitespace c =
     (c \<in> set [CHR 0x09, CHR 0x0A, CHR 0x0B, CHR 0x0C, CHR 0x0D, CHR 0x20, CHR 0xA0])"

definition trim :: "string \<Rightarrow> string" where
  "trim s = rev (dropWhile js_whitespace (rev (dropWhile js_whitespace s)))"

text \<open>\<open>s.split(/\r?\n/)[0]\<close>: the text before the leftmost line break, the whole
  string when it has none. \<open>split\<close> never returns an empty array, so index 0 exists.\<close>

fun first_line :: "string \<Rightarrow> string" where
  "first_line [] = []"
| "first_line [c] = (if c = CHR 0x0A then [] else [c])"
| "first_line (c # d # cs) =
     (if c = CHR 0x0A then []
      else if c = CHR 0x0D \<and> d = CHR 0x0A then []
      else c # first_line (d # cs))"

subsection \<open>Regular expressions of the shape used by the source\<close>

text \<open>
  An anchored regular expression \<open>/^p1 p2 ... pn$/\<close> whose pieces are character classes
  with a repetition range: \<open>(cls, lo, hi)\<close> is \<open>cls{lo,hi}\<close>, and \<open>hi = None\<close> leaves the
  range open (\<open>+\<close> is \<open>(cls, 1, None)\<close>). \<open>regex_test\<close> is \<open>RegExp.prototype.test\<close>:
  some split of the whole string into runs, one per piece, each of an allowed length and
  of characters of the class.
\<close>

type_synonym piece = "(char \<Rightarrow> bool) \<times> nat \<times> nat option"

fun regex_test :: "piece list \<Rightarrow> string \<Rightarrow> bool" where
  "regex_test [] s = (s = [])"
| "regex_test ((cls, lo, hi) # ps) s =
     list_ex (\<lambda>n. list_all cls (take n s) \<and> regex_test ps (drop n s))
       [lo ..< Suc (case hi of None \<Rightarrow> length s | Some h \<Rightarrow> min h (length s))]"

text \<open>\<open>\d\<close>, \<open>[a-f0-9]\<close> and a literal character.\<close>

definition digit :: "char \<Rightarrow> bool" where
  "digit c = (CHR ''0'' \<le> c \<and> c \<le> CHR ''9'')"

definition hex_lower :: "char \<Rightarrow> bool" where
  "hex_lower c = ((CHR ''a'' \<le> c \<and> c \<le> CHR ''f'') \<or> (CHR ''0'' \<le> c \<and> c \<le> CHR ''9''))"

definition lit :: "char \<Rightarrow> char \<Rightarrow> bool" where
  "lit a c = (c = a)"

section \<open>The process runner: data\<close>

record RunResult =
  code :: int
  stdout :: string
  stderr :: string

record RunOptions =
  cwd :: "string option"
  timeoutMs :: "number option"
  stdin :: "string option"

text \<open>The value \<open>{ cmd, argsPrefix }\<close> that a successful resolution returns.\<close>

record resolved =
  resolved_cmd :: string
  argsPrefix :: "string list"

text \<open>A \<open>NodeJS.ErrnoException\<close>: its \<open>code\<close> property and its message.\<close>

datatype errno_exception = ErrnoException (err_code: "string option") (err_message: string)

text \<open>One entry of \<open>stdio\<close>; the options object passed to \<open>spawn\<close>.\<close>

datatype stdio_mode = Pipe | Ignore

record spawn_options =
  sp_cwd :: "string option"
  sp_env :: environment
  sp_stdio :: "stdio_mode list"
  sp_windowsHide :: bool

text \<open>The \<open>ChildProcess\<close> that \<open>spawn\<close> returns: which of its three streams is not
  null. The source tests each before using it.\<close>

record child =
  has_stdin :: bool
  has_stdout :: bool
  has_stderr :: bool

text \<open>
  What the lookup child \<open>spawn("where", ["agent"], ...)\<close> does: the call throws; or the
  child delivers chunks on its standard output and then its \<open>close\<close> event; or the child
  emits its \<open>error\<close> event (the way Node reports that a program could not be started).
  The source registers a \<open>data\<close> and a \<open>close\<close> listener on this child and no \<open>error\<close>
  listener.
\<close>

datatype where_outcome =
    WhereThrows errno_exception
  | WhereCloses "string list"
  | WhereErrors errno_exception

text \<open>
  How an asynchronous computation ends for its caller: it returns a value, it throws
  (its promise is rejected), or an \<open>error\<close> event is emitted for which nobody listens.
  An event emitter throws such an event's error from the event loop, outside every
  \<open>try\<close> block of the program, and the awaited promise is never settled: the caller gets
  neither a value nor an exception.
\<close>

datatype 'a completion = Returned 'a | Thrown errno_exception | Unhandled errno_exception

text \<open>
  Everything the runner reads from outside: the platform name, the environment, the
  outcome of the lookup child, the directory listing (rejected with an error, or the
  entry names), the result of the \<open>spawn\<close> call of \<open>run\<close> (thrown error or child), and
  the two functions of \<open>node:path\<close>, which are not part of the repository and are
  parameters here.
\<close>

record world =
  process_platform :: string
  process_env :: environment
  where_agent :: where_outcome
  readdir :: "string \<Rightarrow> errno_exception + string list"
  dirname :: "string \<Rightarrow> string"
  join :: "string list \<Rightarrow> string"
  spawn :: "string \<Rightarrow> string list \<Rightarrow> spawn_options \<Rightarrow> errno_exception + child"

section \<open>\<open>resolveWindowsCursorAgent\<close>\<close>

text \<open>\<open>/^\d{4}\.\d{1,2}\.\d{1,2}-[a-f0-9]+$/\<close>\<close>

definition version_pattern :: "piece list" where
  "version_pattern =
     [(digit, 4, Some 4), (lit CHR ''.'', 1, Some 1), (digit, 1, Some 2),
      (lit CHR ''.'', 1, Some 1), (digit, 1, Some 2), (lit CHR ''-'', 1, Some 1),
      (hex_lower, 1, None)]"

text \<open>\<open>entries.filter(name => /.../.test(name)).sort().reverse()\<close>; the default sort
  compares strings by code unit.\<close>

definition versions :: "string list \<Rightarrow> string list" where
  "versions entries = rev (sort (filter (regex_test version_pattern) entries))"

text \<open>The promise \<open>out\<close> awaits: all chunks appended to \<open>s\<close>, then
  \<open>s.trim().split(/\r?\n/)[0]\<close> at the \<open>close\<close> event. A throwing \<open>spawn\<close> throws out of
  the expression.\<close>

definition where_out :: "where_outcome \<Rightarrow> string completion" where
  "where_out outcome =
     (case outcome of
        WhereThrows e \<Rightarrow> Thrown e
      | WhereCloses chunks \<Rightarrow> Returned (first_line (trim (concat chunks)))
      | WhereErrors e \<Rightarrow> Unhandled e)"

text \<open>From \<open>const agentDir = dirname(agentPath)\<close> to the end of the \<open>try\<close> block. The
  value \<open>None\<close> is leaving the block without a \<open>return\<close>.\<close>

definition resolve_in_dir :: "world \<Rightarrow> string \<Rightarrow> resolved option" where
  "resolve_in_dir w agentPath =
     (let agentDir = dirname w agentPath;
          versionsDir = join w [agentDir, ''versions''];
          entries = (case readdir w versionsDir of Inl e \<Rightarrow> [] | Inr es \<Rightarrow> es)
      in case versions entries of
           [] \<Rightarrow> None
         | latest # _ \<Rightarrow>
             Some \<lparr>resolved_cmd = join w [versionsDir, latest, ''node.exe''],
                   argsPrefix = [join w [versionsDir, latest, ''index.js'']]\<rparr>)"

text \<open>The body of the \<open>try\<close> block: \<open>Returned r\<close> is a \<open>return r\<close> or, with
  \<open>r = None\<close>, the end of the block.\<close>

definition resolve_try :: "world \<Rightarrow> string \<Rightarrow> resolved option completion" where
  "resolve_try w cmd =
     (if cmd = ''agent'' then
        (case where_out (where_agent w) of
           Thrown e \<Rightarrow> Thrown e
         | Unhandled e \<Rightarrow> Unhandled e
         | Returned out \<Rightarrow>
             if out \<noteq> [] \<and> endsWith out ''agent.cmd''
             then Returned (resolve_in_dir w out)
             else Returned None)
      else Returned (resolve_in_dir w cmd))"

text \<open>The function: \<open>Returned None\<close> is \<open>null\<close>. The \<open>catch\<close> clause is empty and
  \<open>return null\<close> follows it, so what is thrown inside the \<open>try\<close> block becomes \<open>null\<close>.\<close>

definition resolveWindowsCursorAgent :: "world \<Rightarrow> string \<Rightarrow> resolved option completion" where
  "resolveWindowsCursorAgent w cmd =
     (if process_platform w \<noteq> ''win32'' then Returned None
      else if \<not> endsWith cmd ''agent.cmd'' \<and> cmd \<noteq> ''agent'' then Returned None
      else (case resolve_try w cmd of
              Thrown e \<Rightarrow> Returned None
            | Returned r \<Rightarrow> Returned r
            | Unhandled e \<Rightarrow> Unhandled e))"

section \<open>\<open>run\<close>\<close>

text \<open>Which command is spawned, and with which arguments: the \<open>if\<close> / \<open>else if\<close> after
  the resolution, and \<open>cmd\<close>, \<open>args\<close> unchanged when neither branch is taken.\<close>

definition actual_invocation ::
  "world \<Rightarrow> resolved option \<Rightarrow> string \<Rightarrow> string list \<Rightarrow> string \<times> string list" where
  "actual_invocation w res cmd args =
     (case res of
        Some r \<Rightarrow> (resolved_cmd r, argsPrefix r @ args)
      | None \<Rightarrow>
          if process_platform w = ''win32''
             \<and> (endsWith cmd ''.cmd'' \<or> endsWith cmd ''.bat'' \<or> cmd = ''agent'')
          then (or_default (process_env w ''COMSPEC'') ''cmd.exe'',
                [''/d'', ''/s'', ''/c'', cmd] @ args)
          else (cmd, args))"

text \<open>The options object of the \<open>spawn\<close> call.\<close>

definition spawn_options_for :: "world \<Rightarrow> RunOptions \<Rightarrow> spawn_options" where
  "spawn_options_for w opts =
     \<lparr>sp_cwd = cwd opts,
      sp_env = process_env w,
      sp_stdio = [if truthy (stdin opts) then Pipe else Ignore, Pipe, Pipe],
      sp_windowsHide = True\<rparr>"

text \<open>
  The reason a promise is rejected with: the \<open>Error\<close> the source creates, with its
  message, or an error object of the platform passed on as it came.
\<close>

datatype rejection = NewError string | PlatformError errno_exception

datatype settled = Resolved RunResult | Rejected rejection

text \<open>
  What \<open>run\<close> does to the outside, in the order it does it. \<open>CallResolve\<close> and
  \<open>CallReject\<close> are the calls of the promise's two functions; only the first of them
  settles the promise. \<open>UncaughtException\<close> is an error that reaches the event loop.
\<close>

datatype effect =
    Spawn string "string list" spawn_options
  | StdinWrite string
  | StdinEnd
  | SetTimeout number
  | ClearTimeout
  | Kill string
  | CallResolve RunResult
  | CallReject rejection
  | UncaughtException errno_exception

text \<open>
  The variables of the promise executor and the state of what it created:
  \<open>stdout_buf\<close>, \<open>stderr_buf\<close> are \<open>let stdout\<close>, \<open>let stderr\<close>; \<open>timeout\<close> is
  \<open>const timeout\<close> (the delay the timer was created with, \<open>None\<close> for \<open>undefined\<close>);
  \<open>timer_armed\<close> says that the timer is still to fire; the two listener flags say
  whether a \<open>data\<close> listener was registered; \<open>promise\<close> is \<open>None\<close> while pending.
\<close>

record run_state =
  stdout_buf :: string
  stderr_buf :: string
  timeout :: "number option"
  timer_armed :: bool
  stdout_listener :: bool
  stderr_listener :: bool
  promise :: "settled option"
  effects :: "effect list"

text \<open>\<open>const timeout = typeof timeoutMs === "number" && timeoutMs > 0 ? setTimeout(...) :
  undefined\<close>\<close>

definition timeout_for :: "RunOptions \<Rightarrow> number option" where
  "timeout_for opts =
     (case timeoutMs opts of
        None \<Rightarrow> None
      | Some n \<Rightarrow> if greater_than_zero n then Some n else None)"

text \<open>The synchronous part of the executor after \<open>spawn\<close> has returned \<open>ch\<close>: the write
  to the child's input, the timer, the empty buffers and the listeners.\<close>

definition executor ::
  "string \<Rightarrow> string list \<Rightarrow> spawn_options \<Rightarrow> child \<Rightarrow> RunOptions \<Rightarrow> run_state" where
  "executor actualCmd actualArgs so ch opts =
     \<lparr>stdout_buf = [],
      stderr_buf = [],
      timeout = timeout_for opts,
      timer_armed = (timeout_for opts \<noteq> None),
      stdout_listener = has_stdout ch,
      stderr_listener = has_stderr ch,
      promise = None,
      effects =
        [Spawn actualCmd actualArgs so]
        @ (case stdin opts of
             None \<Rightarrow> []
           | Some text \<Rightarrow>
               if text \<noteq> [] \<and> has_stdin ch then [StdinWrite text, StdinEnd] else [])
        @ (case timeout_for opts of None \<Rightarrow> [] | Some n \<Rightarrow> [SetTimeout n])\<rparr>"

text \<open>\<open>run\<close> when it ends before the executor has a child: no buffer, timer or
  listener exists. When \<open>spawn\<close> throws inside the executor, or the awaited resolution
  throws, the promise of \<open>run\<close> is rejected with the thrown error; when the awaited
  resolution never completes, the promise stays pending.\<close>

definition not_started :: "effect list \<Rightarrow> settled option \<Rightarrow> run_state" where
  "not_started fx p =
     \<lparr>stdout_buf = [],
      stderr_buf = [],
      timeout = None,
      timer_armed = False,
      stdout_listener = False,
      stderr_listener = False,
      promise = p,
      effects = fx\<rparr>"

text \<open>\<open>if (timeout) clearTimeout(timeout)\<close>\<close>

definition clear_timeout :: "run_state \<Rightarrow> run_state" where
  "clear_timeout s =
     (if timeout s \<noteq> None
      then s\<lparr>timer_armed := False, effects := effects s @ [ClearTimeout]\<rparr>
      else s)"

text \<open>\<open>resolve(r)\<close> and \<open>reject(e)\<close>: a settled promise keeps its state.\<close>

definition resolve :: "RunResult \<Rightarrow> run_state \<Rightarrow> run_state" where
  "resolve r s =
     s\<lparr>promise := (case promise s of None \<Rightarrow> Some (Resolved r) | Some p \<Rightarrow> Some p),
       effects := effects s @ [CallResolve r]\<rparr>"

definition reject :: "rejection \<Rightarrow> run_state \<Rightarrow> run_state" where
  "reject e s =
     s\<lparr>promise := (case promise s of None \<Rightarrow> Some (Rejected e) | Some p \<Rightarrow> Some p),
       effects := effects s @ [CallReject e]\<rparr>"

text \<open>The message of the error created for \<open>ENOENT\<close>; \<open>cmd\<close> is the command \<open>run\<close> was
  called with, not the one spawned.\<close>

definition not_found_message :: "string \<Rightarrow> string" where
  "not_found_message cmd =
     ''Command not found: '' @ cmd
     @ ''. Install Cursor CLI (agent) or set CURSOR_AGENT_BIN to its path.''"

text \<open>
  What the event loop delivers to the callbacks the executor registered: a chunk on one
  of the two output streams, the child's \<open>error\<close> event, its \<open>close\<close> event with the
  exit code or \<open>null\<close>, and the expiry of the timer. A timer that was never created, has
  fired or was cleared has no callback left to run. Events of the three stream objects
  other than \<open>data\<close> have no listener in the source and are not part of the model.
\<close>

datatype event =
    StdoutData string
  | StderrData string
  | ErrorEvent errno_exception
  | CloseEvent "int option"
  | TimerFires

fun on_event :: "string \<Rightarrow> run_state \<Rightarrow> event \<Rightarrow> run_state" where
  "on_event cmd s (StdoutData c) =
     (if stdout_listener s then s\<lparr>stdout_buf := stdout_buf s @ c\<rparr> else s)"
| "on_event cmd s (StderrData c) =
     (if stderr_listener s then s\<lparr>stderr_buf := stderr_buf s @ c\<rparr> else s)"
| "on_event cmd s (ErrorEvent err) =
     (let s1 = clear_timeout s
      in if err_code err = Some ''ENOENT''
         then reject (NewError (not_found_message cmd)) s1
         else reject (PlatformError err) s1)"
| "on_event cmd s (CloseEvent c) =
     (let s1 = clear_timeout s
      in resolve \<lparr>code = (case c of None \<Rightarrow> 0 | Some n \<Rightarrow> n),
                  stdout = stdout_buf s1, stderr = stderr_buf s1\<rparr> s1)"
| "on_event cmd s TimerFires =
     (if timer_armed s
      then s\<lparr>timer_armed := False, effects := effects s @ [Kill ''SIGKILL'']\<rparr>
      else s)"

text \<open>
  \<open>run\<close> on a world and the events delivered after the executor has run, in order of
  delivery. The result is the state reached; its \<open>promise\<close> field is what the caller
  awaits.
\<close>

definition run ::
  "world \<Rightarrow> string \<Rightarrow> string list \<Rightarrow> RunOptions \<Rightarrow> event list \<Rightarrow> run_state" where
  "run w cmd args opts evs =
     (case resolveWindowsCursorAgent w cmd of
        Thrown e \<Rightarrow> not_started [] (Some (Rejected (PlatformError e)))
      | Unhandled e \<Rightarrow> not_started [UncaughtException e] None
      | Returned res \<Rightarrow>
          (let actual = actual_invocation w res cmd args;
               so = spawn_options_for w opts
           in case spawn w (fst actual) (snd actual) so of
                Inl e \<Rightarrow>
                  not_started [Spawn (fst actual) (snd actual) so]
                    (Some (Rejected (PlatformError e)))
              | Inr ch \<Rightarrow>
                  foldl (on_event cmd) (executor (fst actual) (snd actual) so ch opts) evs))"

section \<open>The plugin: \<open>getCursorAgentBin\<close>\<close>

text \<open>
  \<^verbatim>\<open>process.env.CURSOR_AGENT_BIN || process.env.CURSOR_CLI_BIN ||
  process.env.CURSOR_CLI_PATH || "agent"\<close>; the operator associates to the left.
\<close>

definition getCursorAgentBin :: "environment \<Rightarrow> string" where
  "getCursorAgentBin env =
     or_default
       (js_or (js_or (env ''CURSOR_AGENT_BIN'') (env ''CURSOR_CLI_BIN''))
          (env ''CURSOR_CLI_PATH''))
       ''agent''"

section \<open>Observations on a run\<close>

text \<open>The text of the chunks that a sequence of events carries on each of the two
  output streams, in order of arrival.\<close>

fun stdout_chunk :: "event \<Rightarrow> string" where
  "stdout_chunk (StdoutData c) = c"
| "stdout_chunk _ = []"

fun stderr_chunk :: "event \<Rightarrow> string" where
  "stderr_chunk (StderrData c) = c"
| "stderr_chunk _ = []"

definition stdout_text :: "event list \<Rightarrow> string" where
  "stdout_text evs = concat (map stdout_chunk evs)"

definition stderr_text :: "event list \<Rightarrow> string" where
  "stderr_text evs = concat (map stderr_chunk evs)"

text \<open>The events whose callbacks call \<open>resolve\<close> or \<open>reject\<close>.\<close>

fun settles :: "event \<Rightarrow> bool" where
  "settles (ErrorEvent e) = True"
| "settles (CloseEvent c) = True"
| "settles _ = False"

text \<open>The child that the \<open>spawn\<close> call of \<open>run\<close> returned, when the call was reached
  and returned one.\<close>

definition spawned :: "world \<Rightarrow> string \<Rightarrow> string list \<Rightarrow> RunOptions \<Rightarrow> child option" where
  "spawned w cmd args opts =
     (case resolveWindowsCursorAgent w cmd of
        Returned res \<Rightarrow>
          (let actual = actual_invocation w res cmd args
           in case spawn w (fst actual) (snd actual) (spawn_options_for w opts) of
                Inl e \<Rightarrow> None
              | Inr ch \<Rightarrow> Some ch)
      | _ \<Rightarrow> None)"

text \<open>The environment variables that the plugin reads the path of the agent binary
  from, and those of them whose name occurs in a message.\<close>

definition binary_path_variables :: "string list" where
  "binary_path_variables = [''CURSOR_AGENT_BIN'', ''CURSOR_CLI_BIN'', ''CURSOR_CLI_PATH'']"

definition variables_named :: "string \<Rightarrow> string list" where
  "variables_named msg = filter (\<lambda>v. sublist v msg) binary_path_variables"

text \<open>Parts of an effect log: the \<open>spawn\<close> calls, what is done to the child's input
  stream, the text written to it, the signals sent, and the calls that settle.\<close>

fun is_spawn :: "effect \<Rightarrow> bool" where
  "is_spawn (Spawn c a so) = True"
| "is_spawn _ = False"

fun on_stdin :: "effect \<Rightarrow> bool" where
  "on_stdin (StdinWrite t) = True"
| "on_stdin StdinEnd = True"
| "on_stdin _ = False"

fun written :: "effect \<Rightarrow> string" where
  "written (StdinWrite t) = t"
| "written _ = []"

definition stdin_written :: "effect list \<Rightarrow> string" where
  "stdin_written fx = concat (map written fx)"

fun is_kill :: "effect \<Rightarrow> bool" where
  "is_kill (Kill sig) = True"
| "is_kill _ = False"

fun settle_call :: "effect \<Rightarrow> bool" where
  "settle_call (CallResolve r) = True"
| "settle_call (CallReject e) = True"
| "settle_call _ = False"

fun is_set_timeout :: "effect \<Rightarrow> bool" where
  "is_set_timeout (SetTimeout n) = True"
| "is_set_timeout _ = False"

text \<open>The effects that the callbacks have, as opposed to the executor.\<close>

fun from_callback :: "effect \<Rightarrow> bool" where
  "from_callback ClearTimeout = True"
| "from_callback (Kill sig) = True"
| "from_callback (CallResolve r) = True"
| "from_callback (CallReject e) = True"
| "from_callback _ = False"

text \<open>
  An effect log in which the timer is cleared before the promise is settled: a call of
  \<open>resolve\<close> or \<open>reject\<close> that comes after a timer was created comes right after a
  \<open>clearTimeout\<close>.
\<close>

definition cleared_before_settling :: "effect list \<Rightarrow> bool" where
  "cleared_before_settling fx =
     (\<forall>xs e ys. fx = xs @ e # ys \<and> settle_call e \<and> list_ex is_set_timeout xs
        \<longrightarrow> xs \<noteq> [] \<and> last xs = ClearTimeout)"

text \<open>What holds of every state \<open>run\<close> reaches: the order above; a timer exists only if
  \<open>setTimeout\<close> was called; it is armed only if it exists, and only while the promise is
  pending.\<close>

definition log_inv :: "run_state \<Rightarrow> bool" where
  "log_inv s = (cleared_before_settling (effects s)
                \<and> (timeout s = None \<longrightarrow> \<not> list_ex is_set_timeout (effects s))
                \<and> (timer_armed s \<longrightarrow> timeout s \<noteq> None)
                \<and> (promise s \<noteq> None \<longrightarrow> \<not> timer_armed s))"

section \<open>Example worlds\<close>

text \<open>Stand-ins for \<open>path.join\<close> and \<open>path.dirname\<close> in the examples: the parts joined
  by a slash, and the text before the last slash.\<close>

fun slash_join :: "string list \<Rightarrow> string" where
  "slash_join [] = []"
| "slash_join [p] = p"
| "slash_join (p # q # ps) = p @ ''/'' @ slash_join (q # ps)"

definition slash_dirname :: "string \<Rightarrow> string" where
  "slash_dirname p = rev (tl (dropWhile (\<lambda>c. c \<noteq> CHR ''/'') (rev p)))"

text \<open>
  A Windows machine: \<open>where agent\<close> prints two paths, the directory next to the first
  holds two versions and another file, \<open>COMSPEC\<close> is set, and every command can be
  spawned.
\<close>

definition windows_world :: world where
  "windows_world =
     \<lparr>process_platform = ''win32'',
      process_env = (\<lambda>v. if v = ''COMSPEC'' then Some ''C:/Windows/system32/cmd.exe'' else None),
      where_agent =
        WhereCloses [''C:/cursor/agent'',
                     ''.cmd'' @ [CHR 0x0D, CHR 0x0A] @ ''D:/old/agent.cmd'' @ [CHR 0x0D, CHR 0x0A]],
      readdir =
        (\<lambda>d. if d = ''C:/cursor/versions''
              then Inr [''2024.1.2-abc123'', ''readme.txt'', ''2024.10.1-def456'']
              else Inl (ErrnoException (Some ''ENOENT'') ''no such directory'')),
      dirname = slash_dirname,
      join = slash_join,
      spawn = (\<lambda>c a so. Inr \<lparr>has_stdin = (sp_stdio so ! 0 = Pipe),
                                 has_stdout = (sp_stdio so ! 1 = Pipe),
                                 has_stderr = (sp_stdio so ! 2 = Pipe)\<rparr>)\<rparr>"

text \<open>A POSIX machine on which every command can be spawned; the child has the streams
  its \<open>stdio\<close> option asks for.\<close>

definition unix_world :: world where
  "unix_world =
     \<lparr>process_platform = ''linux'',
      process_env = (\<lambda>v. None),
      where_agent = WhereThrows (ErrnoException (Some ''ENOENT'') ''spawn where ENOENT''),
      readdir = (\<lambda>d. Inl (ErrnoException (Some ''ENOENT'') ''no such directory'')),
      dirname = (\<lambda>p. p),
      join = concat,
      spawn = (\<lambda>c a so. Inr \<lparr>has_stdin = (sp_stdio so ! 0 = Pipe),
                                 has_stdout = (sp_stdio so ! 1 = Pipe),
                                 has_stderr = (sp_stdio so ! 2 = Pipe)\<rparr>)\<rparr>"

definition no_options :: RunOptions where
  "no_options = \<lparr>cwd = None, timeoutMs = None, stdin = None\<rparr>"

text \<open>An environment that sets all three variables of the plugin.\<close>

definition three_bins :: environment where
  "three_bins v =
     (if v = ''CURSOR_AGENT_BIN'' then Some ''/opt/a''
      else if v = ''CURSOR_CLI_BIN'' then Some ''/opt/b''
      else if v = ''CURSOR_CLI_PATH'' then Some ''/opt/c''
      else None)"

text \<open>The Windows machine with \<open>COMSPEC\<close> set to the empty string.\<close>

definition empty_comspec_world :: world where
  "empty_comspec_world =
     windows_world\<lparr>process_env := (\<lambda>v. if v = ''COMSPEC'' then Some [] else None)\<rparr>"

text \<open>The Windows machine on which \<open>where\<close> cannot be started: the lookup child emits
  \<open>error\<close>.\<close>

definition no_where_world :: world where
  "no_where_world =
     windows_world\<lparr>where_agent :=
       WhereErrors (ErrnoException (Some ''ENOENT'') ''spawn where ENOENT'')\<rparr>"

section \<open>Lemmas on the event callbacks\<close>

lemma on_event_frame:
  "timeout (on_event cmd s e) = timeout s"
  "stdout_listener (on_event cmd s e) = stdout_listener s"
  "stderr_listener (on_event cmd s e) = stderr_listener s"
  by (cases e; simp add: clear_timeout_def resolve_def reject_def Let_def)+

lemma events_frame:
  "timeout (foldl (on_event cmd) s evs) = timeout s"
  "stdout_listener (foldl (on_event cmd) s evs) = stdout_listener s"
  "stderr_listener (foldl (on_event cmd) s evs) = stderr_listener s"
  by (induction evs arbitrary: s; simp add: on_event_frame)+

lemma on_event_stdout_buf:
  "stdout_buf (on_event cmd s e) =
     stdout_buf s @ (if stdout_listener s then stdout_chunk e else [])"
  by (cases e; simp add: clear_timeout_def resolve_def reject_def Let_def)

lemma on_event_stderr_buf:
  "stderr_buf (on_event cmd s e) =
     stderr_buf s @ (if stderr_listener s then stderr_chunk e else [])"
  by (cases e; simp add: clear_timeout_def resolve_def reject_def Let_def)

lemma events_stdout_buf:
  "stdout_buf (foldl (on_event cmd) s evs) =
     stdout_buf s @ (if stdout_listener s then stdout_text evs else [])"
  by (induction evs arbitrary: s)
    (simp_all add: stdout_text_def on_event_stdout_buf on_event_frame)

lemma events_stderr_buf:
  "stderr_buf (foldl (on_event cmd) s evs) =
     stderr_buf s @ (if stderr_listener s then stderr_text evs else [])"
  by (induction evs arbitrary: s)
    (simp_all add: stderr_text_def on_event_stderr_buf on_event_frame)

text \<open>A settled promise stays as it is; events other than \<open>error\<close> and \<open>close\<close> leave a
  pending promise pending.\<close>

lemma on_event_settled:
  "promise s = Some p \<Longrightarrow> promise (on_event cmd s e) = Some p"
  by (cases e; simp add: clear_timeout_def resolve_def reject_def Let_def)

lemma events_settled:
  "promise s = Some p \<Longrightarrow> promise (foldl (on_event cmd) s evs) = Some p"
  by (induction evs arbitrary: s) (simp_all add: on_event_settled)

lemma on_event_pending:
  "\<not> settles e \<Longrightarrow> promise (on_event cmd s e) = promise s"
  by (cases e; simp)

lemma events_pending:
  "list_all (\<lambda>e. \<not> settles e) evs \<Longrightarrow> promise (foldl (on_event cmd) s evs) = promise s"
  by (induction evs arbitrary: s) (simp_all add: on_event_pending)

text \<open>Once \<open>spawn\<close> has returned a child, \<open>run\<close> is the executor followed by the
  callbacks.\<close>

lemma run_events:
  "spawned w cmd args opts = Some ch \<Longrightarrow>
   run w cmd args opts evs = foldl (on_event cmd) (run w cmd args opts []) evs"
  by (auto simp: spawned_def run_def Let_def split: sum.splits completion.splits)

lemma run_spawned:
  assumes "spawned w cmd args opts = Some ch"
  shows "promise (run w cmd args opts []) = None"
    and "stdout_buf (run w cmd args opts []) = []"
    and "stderr_buf (run w cmd args opts []) = []"
    and "stdout_listener (run w cmd args opts []) = has_stdout ch"
    and "stderr_listener (run w cmd args opts []) = has_stderr ch"
    and "timeout (run w cmd args opts []) = timeout_for opts"
    and "timer_armed (run w cmd args opts []) = (timeout_for opts \<noteq> None)"
  using assms
  by (auto simp: spawned_def run_def executor_def Let_def split: sum.splits completion.splits)

lemma unix_spawned:
  "spawned unix_world cmd args opts =
     Some \<lparr>has_stdin = truthy (stdin opts), has_stdout = True, has_stderr = True\<rparr>"
  by (simp add: spawned_def unix_world_def resolveWindowsCursorAgent_def
      actual_invocation_def spawn_options_for_def)

text \<open>An \<open>error\<close> event that arrives while the promise is pending rejects it; so does a
  \<open>spawn\<close> that throws.\<close>

lemma error_event_rejects:
  assumes "spawned w cmd args opts = Some ch"
      and "list_all (\<lambda>e. \<not> settles e) pre"
  shows "promise (run w cmd args opts (pre @ ErrorEvent err # post)) =
           Some (Rejected (if err_code err = Some ''ENOENT''
                           then NewError (not_found_message cmd)
                           else PlatformError err))"
proof -
  let ?s1 = "foldl (on_event cmd) (run w cmd args opts []) pre"
  have pending: "promise ?s1 = None"
    using assms by (simp add: events_pending run_spawned)
  have "promise (on_event cmd ?s1 (ErrorEvent err)) =
          Some (Rejected (if err_code err = Some ''ENOENT''
                           then NewError (not_found_message cmd)
                           else PlatformError err))"
    using pending by (simp add: reject_def clear_timeout_def Let_def)
  then have "promise (foldl (on_event cmd) (on_event cmd ?s1 (ErrorEvent err)) post) =
          Some (Rejected (if err_code err = Some ''ENOENT''
                           then NewError (not_found_message cmd)
                           else PlatformError err))"
    by (rule events_settled)
  then show ?thesis
    using run_events[OF assms(1), of "pre @ ErrorEvent err # post"] by simp
qed

lemma spawn_throws_rejects:
  assumes "resolveWindowsCursorAgent w cmd = Returned res"
      and "spawn w (fst (actual_invocation w res cmd args))
             (snd (actual_invocation w res cmd args)) (spawn_options_for w opts) = Inl e"
  shows "promise (run w cmd args opts evs) = Some (Rejected (PlatformError e))"
  using assms by (simp add: run_def Let_def not_started_def)

text \<open>The callbacks only add to the effect log, and only effects of their own.\<close>

lemma on_event_effects:
  "\<exists>later. effects (on_event cmd s e) = effects s @ later \<and> list_all from_callback later"
  by (cases e; simp add: clear_timeout_def resolve_def reject_def Let_def)

lemma events_effects:
  "\<exists>later. effects (foldl (on_event cmd) s evs) = effects s @ later \<and> list_all from_callback later"
proof (induction evs arbitrary: s)
  case Nil
  show ?case by simp
next
  case (Cons e evs)
  obtain m1 where m1: "effects (on_event cmd s e) = effects s @ m1" "list_all from_callback m1"
    using on_event_effects by blast
  obtain m2 where m2: "effects (foldl (on_event cmd) (on_event cmd s e) evs)
                         = effects (on_event cmd s e) @ m2" "list_all from_callback m2"
    using Cons.IH by blast
  show ?case using m1 m2 by (intro exI[of _ "m1 @ m2"]) simp
qed

lemma from_callback_filters:
  assumes "list_all from_callback later"
  shows "filter is_spawn later = []" "filter on_stdin later = []"
        "filter is_set_timeout later = []" "stdin_written later = []"
proof -
  have a: "from_callback e \<Longrightarrow> \<not> is_spawn e \<and> \<not> on_stdin e \<and> \<not> is_set_timeout e \<and> written e = []"
    for e by (cases e) simp_all
  show "filter is_spawn later = []" "filter on_stdin later = []"
        "filter is_set_timeout later = []"
    using assms a by (auto simp: filter_empty_conv list_all_iff)
  show "stdin_written later = []"
    using assms a by (induction later) (auto simp: stdin_written_def)
qed

text \<open>The effects of the executor.\<close>

lemma run_effects:
  assumes "spawned w cmd args opts = Some ch"
  shows "\<exists>res later. resolveWindowsCursorAgent w cmd = Returned res
           \<and> list_all from_callback later
           \<and> effects (run w cmd args opts evs) =
               Spawn (fst (actual_invocation w res cmd args))
                 (snd (actual_invocation w res cmd args)) (spawn_options_for w opts)
               # (case stdin opts of
                    None \<Rightarrow> []
                  | Some text \<Rightarrow>
                      if text \<noteq> [] \<and> has_stdin ch then [StdinWrite text, StdinEnd] else [])
               @ (case timeout_for opts of None \<Rightarrow> [] | Some n \<Rightarrow> [SetTimeout n])
               @ later"
proof -
  obtain later where m: "effects (foldl (on_event cmd) (run w cmd args opts []) evs)
       = effects (run w cmd args opts []) @ later" "list_all from_callback later"
    using events_effects by blast
  show ?thesis
    using assms m run_events[OF assms, of evs]
    by (auto simp: spawned_def run_def executor_def Let_def
        split: completion.splits sum.splits)
qed

lemma run_spawn_calls:
  assumes "resolveWindowsCursorAgent w cmd = Returned res"
  shows "filter is_spawn (effects (run w cmd args opts evs)) =
           [Spawn (fst (actual_invocation w res cmd args))
              (snd (actual_invocation w res cmd args)) (spawn_options_for w opts)]"
proof (cases "spawned w cmd args opts")
  case None
  then show ?thesis using assms
    by (auto simp: spawned_def run_def Let_def not_started_def split: sum.splits)
next
  case (Some ch)
  from run_effects[OF Some, of evs] assms show ?thesis
    by (auto simp: from_callback_filters split: option.splits)
qed


text \<open>The order of \<open>clearTimeout\<close> and the settling calls, as an invariant of the
  effect log; a timer that is not armed stays so and sends no signal.\<close>

lemma cleared_append:
  assumes "cleared_before_settling fx"
      and "\<And>xs e ys. later = xs @ e # ys \<Longrightarrow> settle_call e \<Longrightarrow>
             list_ex is_set_timeout (fx @ xs) \<Longrightarrow> fx @ xs \<noteq> [] \<and> last (fx @ xs) = ClearTimeout"
  shows "cleared_before_settling (fx @ later)"
  unfolding cleared_before_settling_def
proof (intro allI impI)
  fix xs e ys
  assume a: "fx @ later = xs @ e # ys \<and> settle_call e \<and> list_ex is_set_timeout xs"
  then consider us where "fx = xs @ us" "us @ later = e # ys"
    | us where "fx @ us = xs" "later = us @ e # ys"
    by (auto simp: append_eq_append_conv2)
  then show "xs \<noteq> [] \<and> last xs = ClearTimeout"
  proof cases
    case 1
    show ?thesis
    proof (cases us)
      case Nil
      with 1 have "later = [] @ e # ys" "fx @ [] = xs" by simp_all
      with assms(2)[of "[]" e ys] a show ?thesis by simp
    next
      case (Cons u us')
      with 1 have "fx = xs @ e # us'" by simp
      with assms(1) a show ?thesis unfolding cleared_before_settling_def by blast
    qed
  next
    case 2
    with assms(2)[of us e ys] a show ?thesis by auto
  qed
qed

lemma cleared_no_settle:
  "list_all (\<lambda>e. \<not> settle_call e) fx \<Longrightarrow> cleared_before_settling fx"
  unfolding cleared_before_settling_def by (auto simp: list_all_iff)

lemma cleared_append_quiet:
  assumes "cleared_before_settling fx" "list_all (\<lambda>e. \<not> settle_call e) later"
  shows "cleared_before_settling (fx @ later)"
  using assms(1)
proof (rule cleared_append)
  fix xs e ys
  assume "later = xs @ e # ys" "settle_call e"
  with assms(2) show "fx @ xs \<noteq> [] \<and> last (fx @ xs) = ClearTimeout"
    by (auto simp: list_all_iff)
qed

lemma cleared_append_cleared:
  assumes "cleared_before_settling fx" "settle_call c"
  shows "cleared_before_settling (fx @ [ClearTimeout, c])"
  using assms(1)
proof (rule cleared_append)
  fix xs e ys
  assume "[ClearTimeout, c] = xs @ e # ys" "settle_call e"
  then have "xs = [ClearTimeout]"
    by (cases xs; cases "tl xs"; auto)
  then show "fx @ xs \<noteq> [] \<and> last (fx @ xs) = ClearTimeout" by simp
qed

lemma cleared_append_no_timer:
  assumes "cleared_before_settling fx" "\<not> list_ex is_set_timeout fx"
  shows "cleared_before_settling (fx @ [c])"
  using assms(1)
proof (rule cleared_append)
  fix xs e ys
  assume "[c] = xs @ e # ys" "list_ex is_set_timeout (fx @ xs)"
  then have "xs = []" by (cases xs; auto)
  with assms(2) \<open>list_ex is_set_timeout (fx @ xs)\<close>
  show "fx @ xs \<noteq> [] \<and> last (fx @ xs) = ClearTimeout" by simp
qed

lemma on_event_log_inv: "log_inv s \<Longrightarrow> log_inv (on_event cmd s e)"
proof (cases e)
  case (StdoutData c)
  assume "log_inv s" then show ?thesis using StdoutData by (simp add: log_inv_def)
next
  case (StderrData c)
  assume "log_inv s" then show ?thesis using StderrData by (simp add: log_inv_def)
next
  case TimerFires
  assume "log_inv s" then show ?thesis using TimerFires
    by (auto simp: log_inv_def intro: cleared_append_quiet)
next
  case (ErrorEvent err)
  assume i: "log_inv s"
  show ?thesis
  proof (cases "timeout s")
    case None
    then show ?thesis using i ErrorEvent
      by (auto simp: log_inv_def clear_timeout_def reject_def Let_def
          intro: cleared_append_no_timer split: option.splits)
  next
    case (Some n)
    then show ?thesis using i ErrorEvent
      by (auto simp: log_inv_def clear_timeout_def reject_def Let_def
          intro: cleared_append_cleared split: option.splits)
  qed
next
  case (CloseEvent c)
  assume i: "log_inv s"
  show ?thesis
  proof (cases "timeout s")
    case None
    then show ?thesis using i CloseEvent
      by (auto simp: log_inv_def clear_timeout_def resolve_def Let_def
          intro: cleared_append_no_timer split: option.splits)
  next
    case (Some n)
    then show ?thesis using i CloseEvent
      by (auto simp: log_inv_def clear_timeout_def resolve_def Let_def
          intro: cleared_append_cleared split: option.splits)
  qed
qed

lemma events_log_inv: "log_inv s \<Longrightarrow> log_inv (foldl (on_event cmd) s evs)"
  by (induction evs arbitrary: s) (simp_all add: on_event_log_inv)

lemma executor_log_inv: "log_inv (executor c a so ch opts)"
  by (auto simp: log_inv_def executor_def intro!: cleared_no_settle split: option.splits)

lemma not_started_log_inv:
  "list_all (\<lambda>e. \<not> settle_call e \<and> \<not> is_set_timeout e) fx \<Longrightarrow> log_inv (not_started fx p)"
  by (auto simp: log_inv_def not_started_def list_all_iff list_ex_iff intro!: cleared_no_settle)

lemma run_log_inv: "log_inv (run w cmd args opts evs)"
  by (auto simp: run_def Let_def split: completion.splits sum.splits
      intro!: events_log_inv executor_log_inv not_started_log_inv)


lemma on_event_disarmed:
  "\<not> timer_armed s \<Longrightarrow>
   \<not> timer_armed (on_event cmd s e)
   \<and> filter is_kill (effects (on_event cmd s e)) = filter is_kill (effects s)"
  by (cases e; simp add: clear_timeout_def resolve_def reject_def Let_def)

lemma events_disarmed:
  "\<not> timer_armed s \<Longrightarrow>
   \<not> timer_armed (foldl (on_event cmd) s evs)
   \<and> filter is_kill (effects (foldl (on_event cmd) s evs)) = filter is_kill (effects s)"
proof (induction evs arbitrary: s)
  case Nil
  then show ?case by simp
next
  case (Cons e evs)
  from on_event_disarmed[OF Cons.prems, of cmd e] Cons.IH[of "on_event cmd s e"]
  show ?case by simp
qed

lemma on_event_quiet:
  "\<not> settles e \<Longrightarrow> e \<noteq> TimerFires \<Longrightarrow>
   timer_armed (on_event cmd s e) = timer_armed s \<and> effects (on_event cmd s e) = effects s"
  by (cases e; simp)

lemma events_quiet:
  "list_all (\<lambda>e. \<not> settles e \<and> e \<noteq> TimerFires) evs \<Longrightarrow>
   timer_armed (foldl (on_event cmd) s evs) = timer_armed s
   \<and> effects (foldl (on_event cmd) s evs) = effects s"
  by (induction evs arbitrary: s) (simp_all add: on_event_quiet)

lemma timeout_for_Some:
  "(timeout_for opts \<noteq> None) = (\<exists>n. timeoutMs opts = Some n \<and> greater_than_zero n)"
  by (auto simp: timeout_for_def split: option.splits)

lemma timeout_for_case:
  "(case timeout_for opts of None \<Rightarrow> [] | Some n \<Rightarrow> [SetTimeout n]) =
   (case timeoutMs opts of
      None \<Rightarrow> []
    | Some n \<Rightarrow> if greater_than_zero n then [SetTimeout n] else [])"
  by (auto simp: timeout_for_def split: option.splits)

lemma run_executor_effects:
  assumes "spawned w cmd args opts = Some ch"
  shows "\<exists>c a. effects (run w cmd args opts []) =
           Spawn c a (spawn_options_for w opts)
           # (case stdin opts of
                None \<Rightarrow> []
              | Some text \<Rightarrow>
                  if text \<noteq> [] \<and> has_stdin ch then [StdinWrite text, StdinEnd] else [])
           @ (case timeout_for opts of None \<Rightarrow> [] | Some n \<Rightarrow> [SetTimeout n])"
  using assms
  by (auto simp: spawned_def run_def executor_def Let_def
      split: completion.splits sum.splits)

text \<open>The \<open>close\<close> event resolves a pending promise with the buffers; what is written to
  the child's input.\<close>

lemma close_event_resolves:
  assumes "spawned w cmd args opts = Some ch"
      and "list_all (\<lambda>e. \<not> settles e) pre"
  shows "promise (run w cmd args opts (pre @ CloseEvent c # post)) =
           Some (Resolved \<lparr>code = (case c of None \<Rightarrow> 0 | Some n \<Rightarrow> n),
                           stdout = (if has_stdout ch then stdout_text pre else []),
                           stderr = (if has_stderr ch then stderr_text pre else [])\<rparr>)"
proof -
  let ?s0 = "run w cmd args opts []"
  let ?s1 = "foldl (on_event cmd) ?s0 pre"
  have pending: "promise ?s1 = None"
    using assms by (simp add: events_pending run_spawned)
  have out: "stdout_buf ?s1 = (if has_stdout ch then stdout_text pre else [])"
    using assms(1) by (simp add: events_stdout_buf run_spawned)
  have err: "stderr_buf ?s1 = (if has_stderr ch then stderr_text pre else [])"
    using assms(1) by (simp add: events_stderr_buf run_spawned)
  have "promise (on_event cmd ?s1 (CloseEvent c)) =
          Some (Resolved \<lparr>code = (case c of None \<Rightarrow> 0 | Some n \<Rightarrow> n),
                          stdout = stdout_buf ?s1, stderr = stderr_buf ?s1\<rparr>)"
    using pending by (simp add: resolve_def clear_timeout_def Let_def)
  then have "promise (foldl (on_event cmd) (on_event cmd ?s1 (CloseEvent c)) post) =
          Some (Resolved \<lparr>code = (case c of None \<Rightarrow> 0 | Some n \<Rightarrow> n),
                          stdout = stdout_buf ?s1, stderr = stderr_buf ?s1\<rparr>)"
    by (rule events_settled)
  then show ?thesis
    using run_events[OF assms(1), of "pre @ CloseEvent c # post"] out err
    by simp
qed

lemma stdio_stdin:
  "(sp_stdio (spawn_options_for w opts) ! 0 = Pipe) = (\<exists>t. stdin opts = Some t \<and> t \<noteq> [])"
  by (auto simp: spawn_options_for_def truthy_def split: option.splits)

lemma run_stdin_effects:
  "filter on_stdin (effects (run w cmd args opts evs)) =
     (case spawned w cmd args opts of
        None \<Rightarrow> []
      | Some ch \<Rightarrow>
          (case stdin opts of
             None \<Rightarrow> []
           | Some t \<Rightarrow> if t \<noteq> [] \<and> has_stdin ch then [StdinWrite t, StdinEnd] else []))"
proof (cases "spawned w cmd args opts")
  case None
  then show ?thesis
    by (auto simp: spawned_def run_def Let_def not_started_def
        split: completion.splits sum.splits)
next
  case (Some ch)
  from run_effects[OF Some, of evs] Some show ?thesis
    by (auto simp: from_callback_filters split: option.splits)
qed

lemma run_stdin_written:
  assumes "spawned w cmd args opts = Some ch"
  shows "stdin_written (effects (run w cmd args opts evs)) =
          (case stdin opts of
             None \<Rightarrow> []
           | Some t \<Rightarrow> if has_stdin ch then t else [])"
proof -
  from run_effects[OF assms, of evs] obtain res later where
    l: "list_all from_callback later" and
    fx: "effects (run w cmd args opts evs) =
               Spawn (fst (actual_invocation w res cmd args))
                 (snd (actual_invocation w res cmd args)) (spawn_options_for w opts)
               # (case stdin opts of
                    None \<Rightarrow> []
                  | Some text \<Rightarrow>
                      if text \<noteq> [] \<and> has_stdin ch then [StdinWrite text, StdinEnd] else [])
               @ (case timeout_for opts of None \<Rightarrow> [] | Some n \<Rightarrow> [SetTimeout n])
               @ later"
    by blast
  have "stdin_written later = []" using l by (rule from_callback_filters)
  then have "concat (map written later) = []" by (simp add: stdin_written_def)
  moreover have "concat (map written
      (case timeout_for opts of None \<Rightarrow> [] | Some n \<Rightarrow> [SetTimeout n])) = []"
    by (cases "timeout_for opts") simp_all
  ultimately show ?thesis unfolding fx stdin_written_def
    by (simp split: option.splits)
qed

section \<open>Lemmas on the resolution\<close>

text \<open>The head of a list sorted and reversed is a greatest element of the list.\<close>

lemma hd_rev_sort:
  fixes xs :: "'a::linorder list"
  assumes "xs \<noteq> []"
  shows "hd (rev (sort xs)) \<in> set xs \<and> (\<forall>y\<in>set xs. y \<le> hd (rev (sort xs)))"
proof -
  have ne: "sort xs \<noteq> []" using assms by (metis length_sort length_0_conv)
  have hl: "hd (rev (sort xs)) = last (sort xs)" using ne by (simp add: hd_rev)
  have "last (sort xs) \<in> set xs" using last_in_set[OF ne] by simp
  moreover have "y \<le> last (sort xs)" if "y \<in> set xs" for y
  proof -
    from that have "y \<in> set (sort xs)" by simp
    then obtain i where i: "i < length (sort xs)" "sort xs ! i = y"
      by (metis in_set_conv_nth)
    have "sort xs ! i \<le> sort xs ! (length (sort xs) - 1)"
      using i(1) by (intro sorted_nth_mono) auto
    then show ?thesis using i(2) ne by (simp add: last_conv_nth)
  qed
  ultimately show ?thesis using hl by simp
qed

lemma versions_Nil: "(versions entries = []) = (filter (regex_test version_pattern) entries = [])"
  by (simp add: versions_def) (metis length_sort length_0_conv)

lemma versions_latest:
  assumes "versions entries = latest # older"
  shows "latest \<in> set entries \<and> regex_test version_pattern latest
         \<and> (\<forall>v\<in>set entries. regex_test version_pattern v \<longrightarrow> v \<le> latest)"
proof -
  let ?m = "filter (regex_test version_pattern) entries"
  have ne: "?m \<noteq> []" using assms versions_Nil[of entries] by auto
  have "latest = hd (rev (sort ?m))" using assms by (simp add: versions_def)
  then show ?thesis using hd_rev_sort[OF ne] by auto
qed

lemma resolve_in_dir_Some:
  assumes "resolve_in_dir w agentPath = Some r"
  shows "\<exists>latest older.
           versions (case readdir w (join w [dirname w agentPath, ''versions'']) of
                       Inl e \<Rightarrow> [] | Inr es \<Rightarrow> es) = latest # older
           \<and> r = \<lparr>resolved_cmd =
                     join w [join w [dirname w agentPath, ''versions''], latest, ''node.exe''],
                   argsPrefix =
                     [join w [join w [dirname w agentPath, ''versions''], latest, ''index.js'']]\<rparr>"
  using assms by (auto simp: resolve_in_dir_def Let_def split: list.splits)

lemma resolve_in_dir_listing:
  assumes "readdir w (join w [dirname w agentPath, ''versions'']) = Inr entries"
      and "versions entries = latest # older"
  shows "resolve_in_dir w agentPath =
           Some \<lparr>resolved_cmd =
                    join w [join w [dirname w agentPath, ''versions''], latest, ''node.exe''],
                  argsPrefix =
                    [join w [join w [dirname w agentPath, ''versions''], latest, ''index.js'']]\<rparr>"
  using assms by (simp add: resolve_in_dir_def Let_def)

lemma resolve_in_dir_rejected:
  "readdir w (join w [dirname w agentPath, ''versions'']) = Inl e \<Longrightarrow>
   resolve_in_dir w agentPath = None"
  by (simp add: resolve_in_dir_def Let_def versions_def)

lemma endsWith_agent_cmd: "endsWith p ''agent.cmd'' \<Longrightarrow> p \<noteq> ''agent'' \<and> p \<noteq> []"
  by (auto simp: endsWith_def suffix_def)

lemma resolve_via:
  assumes "process_platform w = ''win32''"
      and "(cmd \<noteq> ''agent'' \<and> endsWith cmd ''agent.cmd'' \<and> agentPath = cmd)
           \<or> (cmd = ''agent'' \<and> where_out (where_agent w) = Returned agentPath
               \<and> endsWith agentPath ''agent.cmd'')"
  shows "resolveWindowsCursorAgent w cmd = Returned (resolve_in_dir w agentPath)"
  using assms endsWith_agent_cmd[of agentPath]
  by (auto simp: resolveWindowsCursorAgent_def resolve_try_def)

lemma resolveWindowsCursorAgent_returns:
  assumes "cmd \<noteq> ''agent'' \<or> process_platform w \<noteq> ''win32''
           \<or> (\<forall>e. where_agent w \<noteq> WhereErrors e)"
  shows "\<exists>r. resolveWindowsCursorAgent w cmd = Returned r"
  using assms
  by (auto simp: resolveWindowsCursorAgent_def resolve_try_def where_out_def
      split: completion.splits where_outcome.splits)

lemma resolved_shape:
  assumes "resolveWindowsCursorAgent w cmd = Returned (Some r)"
  shows "\<exists>nodeExe script. r = \<lparr>resolved_cmd = nodeExe, argsPrefix = [script]\<rparr>"
proof -
  from assms obtain p where "resolve_in_dir w p = Some r"
    by (auto simp: resolveWindowsCursorAgent_def resolve_try_def
        split: if_splits completion.splits)
  from resolve_in_dir_Some[OF this] show ?thesis by blast
qed

section \<open>Properties of \<open>resolveWindowsCursorAgent\<close>\<close>

text \<open>
  Claim C3. On Windows, when the resolution reaches the listing of the versions
  directory (\<open>cmd\<close> is a path ending in \<open>agent.cmd\<close>, or \<open>cmd\<close> is \<open>agent\<close> and the lookup
  printed such a path first) and some entry matches the version pattern, the version
  the result is built from is an entry that matches the pattern and is greater than or
  equal to every entry that matches, in the order of strings by code unit: the
  lexicographically greatest. For a listing that holds exactly \<open>2024.1.2-abc123\<close> and
  \<open>2024.10.1-def456\<close> it is \<open>2024.10.1-def456\<close>.
\<close>

theorem latest_is_greatest:
  assumes "process_platform w = ''win32''"
      and "(cmd \<noteq> ''agent'' \<and> endsWith cmd ''agent.cmd'' \<and> agentPath = cmd)
           \<or> (cmd = ''agent'' \<and> where_out (where_agent w) = Returned agentPath
               \<and> endsWith agentPath ''agent.cmd'')"
      and "readdir w (join w [dirname w agentPath, ''versions'']) = Inr entries"
      and "\<exists>v\<in>set entries. regex_test version_pattern v"
  shows "\<exists>latest.
           resolveWindowsCursorAgent w cmd =
             Returned (Some \<lparr>resolved_cmd =
                    join w [join w [dirname w agentPath, ''versions''], latest, ''node.exe''],
                  argsPrefix =
                    [join w [join w [dirname w agentPath, ''versions''], latest, ''index.js'']]\<rparr>)
           \<and> latest \<in> set entries
           \<and> regex_test version_pattern latest
           \<and> (\<forall>v\<in>set entries. regex_test version_pattern v \<longrightarrow> v \<le> latest)
           \<and> (set entries = {''2024.1.2-abc123'', ''2024.10.1-def456''}
                \<longrightarrow> latest = ''2024.10.1-def456'')"
proof -
  have "filter (regex_test version_pattern) entries \<noteq> []"
    using assms(4) by (auto simp: filter_empty_conv)
  then obtain latest older where v: "versions entries = latest # older"
    using versions_Nil[of entries] by (cases "versions entries") auto
  note l = versions_latest[OF v]
  have r: "resolveWindowsCursorAgent w cmd = Returned (resolve_in_dir w agentPath)"
    using assms(1,2) by (rule resolve_via)
  have ex: "latest = ''2024.10.1-def456''"
    if s: "set entries = {''2024.1.2-abc123'', ''2024.10.1-def456''}"
  proof -
    have m: "regex_test version_pattern ''2024.10.1-def456''" by code_simp
    have "''2024.10.1-def456'' \<le> latest" using l s m by auto
    moreover have "latest = ''2024.1.2-abc123'' \<or> latest = ''2024.10.1-def456''"
      using l s by auto
    moreover have "\<not> ''2024.10.1-def456'' \<le> ''2024.1.2-abc123''" by simp
    ultimately show ?thesis by auto
  qed
  show ?thesis
    using r resolve_in_dir_listing[OF assms(3) v] l ex by auto
qed

theorem latest_is_greatest_witness:
  "process_platform windows_world = ''win32''
   \<and> where_out (where_agent windows_world) = Returned ''C:/cursor/agent.cmd''
   \<and> resolveWindowsCursorAgent windows_world ''agent'' =
       Returned (Some \<lparr>resolved_cmd = ''C:/cursor/versions/2024.10.1-def456/node.exe'',
                       argsPrefix = [''C:/cursor/versions/2024.10.1-def456/index.js'']\<rparr>)"
proof -
  have p: "process_platform windows_world = ''win32''"
    by (simp add: windows_world_def)
  have o: "where_out (where_agent windows_world) = Returned ''C:/cursor/agent.cmd''"
    by code_simp
  have a: "(''agent'' \<noteq> ''agent'' \<and> endsWith ''agent'' ''agent.cmd''
              \<and> ''C:/cursor/agent.cmd'' = ''agent'')
           \<or> (''agent'' = ''agent''
               \<and> where_out (where_agent windows_world) = Returned ''C:/cursor/agent.cmd''
               \<and> endsWith ''C:/cursor/agent.cmd'' ''agent.cmd'')"
    using o by (simp add: endsWith_def suffix_def)
  have d: "join windows_world [dirname windows_world ''C:/cursor/agent.cmd'', ''versions'']
             = ''C:/cursor/versions''"
    by (simp add: windows_world_def slash_dirname_def)
  have r: "readdir windows_world
             (join windows_world [dirname windows_world ''C:/cursor/agent.cmd'', ''versions''])
           = Inr [''2024.1.2-abc123'', ''readme.txt'', ''2024.10.1-def456'']"
    unfolding d by (simp add: windows_world_def)
  have m1: "regex_test version_pattern ''2024.1.2-abc123''" by code_simp
  have m2: "\<not> regex_test version_pattern ''readme.txt''" by code_simp
  have m3: "regex_test version_pattern ''2024.10.1-def456''" by code_simp
  have e: "\<exists>v\<in>set [''2024.1.2-abc123'', ''readme.txt'', ''2024.10.1-def456''].
             regex_test version_pattern v"
    using m1 by simp
  from latest_is_greatest[OF p a r e] obtain latest where
    L: "resolveWindowsCursorAgent windows_world ''agent'' =
         Returned (Some \<lparr>resolved_cmd =
            join windows_world [''C:/cursor/versions'', latest, ''node.exe''],
          argsPrefix = [join windows_world [''C:/cursor/versions'', latest, ''index.js'']]\<rparr>)"
    and in_l: "latest \<in> set [''2024.1.2-abc123'', ''readme.txt'', ''2024.10.1-def456'']"
    and re: "regex_test version_pattern latest"
    and ub: "\<forall>v\<in>set [''2024.1.2-abc123'', ''readme.txt'', ''2024.10.1-def456''].
               regex_test version_pattern v \<longrightarrow> v \<le> latest"
    unfolding d by blast
  have "''2024.10.1-def456'' \<le> latest" using ub m3 by simp
  moreover have "\<not> ''2024.10.1-def456'' \<le> ''2024.1.2-abc123''" by simp
  ultimately have "latest = ''2024.10.1-def456''" using in_l re m2 by auto
  with L p o show ?thesis by (simp add: windows_world_def)
qed

text \<open>
  Claim C4. Every error that arises inside the resolution is meant to end in \<open>null\<close>
  and never to leave the function. The source does this for what is thrown inside the
  \<open>try\<close> block, for a lookup that prints nothing usable and for a listing that is
  rejected (lemmas \<open>resolveWindowsCursorAgent_returns\<close> and \<open>resolve_in_dir_rejected\<close>).
  It does not when \<open>where\<close> itself cannot be started: the lookup child then emits
  \<open>error\<close>, the source has no listener for it (it has one for the child of \<open>run\<close>), and
  the error is thrown from the event loop, outside the \<open>try\<close> block. The theorem runs
  the source on that input: the function neither returns \<open>null\<close> nor throws to its
  caller, and \<open>run\<close> spawns nothing and never settles. Its last three lines are the
  three failures that do end in \<open>null\<close>: a \<open>spawn\<close> of the lookup that throws, a lookup
  that prints nothing, and a listing that is rejected.
\<close>

theorem unhandled_lookup_error:
  "resolveWindowsCursorAgent no_where_world ''agent'' =
     Unhandled (ErrnoException (Some ''ENOENT'') ''spawn where ENOENT'')
   \<and> promise (run no_where_world ''agent'' [''-p'', ''hi''] no_options []) = None
   \<and> effects (run no_where_world ''agent'' [''-p'', ''hi''] no_options []) =
       [UncaughtException (ErrnoException (Some ''ENOENT'') ''spawn where ENOENT'')]
   \<and> resolveWindowsCursorAgent
       (windows_world\<lparr>where_agent := WhereThrows (ErrnoException (Some ''EINVAL'') ''spawn EINVAL'')\<rparr>)
       ''agent'' = Returned None
   \<and> resolveWindowsCursorAgent (windows_world\<lparr>where_agent := WhereCloses []\<rparr>) ''agent''
       = Returned None
   \<and> resolveWindowsCursorAgent
       (windows_world\<lparr>readdir := (\<lambda>d. Inl (ErrnoException (Some ''EPERM'') ''scandir EPERM''))\<rparr>)
       ''agent'' = Returned None"
  by (simp add: run_def resolveWindowsCursorAgent_def resolve_try_def where_out_def
      no_where_world_def windows_world_def not_started_def trim_def js_whitespace_def
      endsWith_def suffix_to_prefix resolve_in_dir_def versions_def slash_dirname_def)

section \<open>Properties of \<open>run\<close>\<close>

text \<open>
  Claim C1. The claim as written, that the promise is resolved whenever the child emits
  \<open>close\<close>, fails when an \<open>error\<close> event came first: the \<open>error\<close> callback has rejected
  the promise, and the later \<open>resolve\<close> has no effect. Node emits \<open>close\<close> after \<open>error\<close>
  when a child could not be started, and emits \<open>error\<close> on a running child that could not
  be killed.
\<close>

theorem close_after_error_counterexample:
  "promise (run unix_world ''agent'' [] no_options
      [ErrorEvent (ErrnoException (Some ''ENOENT'') ''spawn agent ENOENT''),
       CloseEvent (Some (- 2))]) =
     Some (Rejected (NewError (not_found_message ''agent'')))
   \<and> promise (run unix_world ''sleep'' [''60'']
        \<lparr>cwd = None, timeoutMs = Some (Finite 1000), stdin = None\<rparr>
        [StdoutData ''x'', TimerFires,
         ErrorEvent (ErrnoException (Some ''EPERM'') ''kill EPERM''),
         CloseEvent (Some 0)]) =
     Some (Rejected (PlatformError (ErrnoException (Some ''EPERM'') ''kill EPERM'')))"
  by (simp add: run_def unix_world_def no_options_def resolveWindowsCursorAgent_def
      actual_invocation_def spawn_options_for_def truthy_def executor_def timeout_for_def
      clear_timeout_def reject_def resolve_def)

text \<open>
  Claim C1, amended. When \<open>spawn\<close> has returned a child and the child's \<open>close\<close> event
  arrives with code \<open>c\<close>, no \<open>error\<close> event having been delivered before it, the promise
  of \<open>run\<close> is resolved with a \<open>RunResult\<close> whose code is \<open>c\<close>, or 0 when \<open>c\<close> is \<open>null\<close>,
  and whose \<open>stdout\<close> and \<open>stderr\<close> are the chunks received on the two streams before the
  \<open>close\<close> event, concatenated in order of arrival (a stream that is null delivers
  none). Whatever is delivered later (\<open>post\<close>) does not change the result.
\<close>

theorem run_resolves_on_close:
  assumes "spawned w cmd args opts = Some ch"
      and "list_all (\<lambda>e. \<not> settles e) pre"
  shows "promise (run w cmd args opts (pre @ CloseEvent c # post)) =
           Some (Resolved \<lparr>code = (case c of None \<Rightarrow> 0 | Some n \<Rightarrow> n),
                           stdout = (if has_stdout ch then stdout_text pre else []),
                           stderr = (if has_stderr ch then stderr_text pre else [])\<rparr>)"
  using assms by (rule close_event_resolves)

theorem run_resolves_on_close_witness:
  "spawned unix_world ''echo'' [''hi''] no_options =
     Some \<lparr>has_stdin = False, has_stdout = True, has_stderr = True\<rparr>
   \<and> promise (run unix_world ''echo'' [''hi''] no_options
        [StdoutData ''h'', StderrData ''w'', StdoutData ''i'', CloseEvent None]) =
       Some (Resolved \<lparr>code = 0, stdout = ''hi'', stderr = ''w''\<rparr>)
   \<and> promise (run unix_world ''false'' [] no_options [CloseEvent (Some 1)]) =
       Some (Resolved \<lparr>code = 1, stdout = [], stderr = []\<rparr>)"
proof -
  have sp: "spawned unix_world ''echo'' [''hi''] no_options =
     Some \<lparr>has_stdin = False, has_stdout = True, has_stderr = True\<rparr>"
    by (simp add: unix_spawned no_options_def truthy_def)
  have sp': "spawned unix_world ''false'' [] no_options =
     Some \<lparr>has_stdin = False, has_stdout = True, has_stderr = True\<rparr>"
    by (simp add: unix_spawned no_options_def truthy_def)
  have pre: "list_all (\<lambda>e. \<not> settles e)
               [StdoutData ''h'', StderrData ''w'', StdoutData ''i'']"
    by simp
  have nil: "list_all (\<lambda>e. \<not> settles e) []"
    by simp
  show ?thesis
    using run_resolves_on_close [OF sp pre, of None "[]"]
      run_resolves_on_close [OF sp' nil, of "Some 1" "[]"] sp
    by (simp add: stdout_text_def stderr_text_def)
qed

text \<open>
  Claim C2. The claim as written fails in one point: the message names one environment
  variable, \<open>CURSOR_AGENT_BIN\<close>, not two. Of the three variables the plugin reads the
  binary's path from, only that one occurs in the message for the command \<open>agent\<close>.
\<close>

theorem not_found_message_counterexample:
  "promise (run unix_world ''agent'' [] no_options
      [ErrorEvent (ErrnoException (Some ''ENOENT'') ''spawn agent ENOENT'')]) =
     Some (Rejected (NewError
       ''Command not found: agent. Install Cursor CLI (agent) or set CURSOR_AGENT_BIN to its path.''))
   \<and> variables_named
       ''Command not found: agent. Install Cursor CLI (agent) or set CURSOR_AGENT_BIN to its path.''
     = [''CURSOR_AGENT_BIN'']"
proof -
  have "variables_named
       ''Command not found: agent. Install Cursor CLI (agent) or set CURSOR_AGENT_BIN to its path.''
     = [''CURSOR_AGENT_BIN'']"
    by code_simp
  moreover have "promise (run unix_world ''agent'' [] no_options
      [ErrorEvent (ErrnoException (Some ''ENOENT'') ''spawn agent ENOENT'')]) =
     Some (Rejected (NewError
       ''Command not found: agent. Install Cursor CLI (agent) or set CURSOR_AGENT_BIN to its path.''))"
    by (simp add: run_def unix_world_def no_options_def resolveWindowsCursorAgent_def
      actual_invocation_def spawn_options_for_def truthy_def executor_def timeout_for_def
      clear_timeout_def reject_def resolve_def not_found_message_def)
  ultimately show ?thesis by simp
qed

text \<open>
  Claim C2, amended. When the child of \<open>run\<close> could not be started because the
  executable was not found (its \<open>error\<close> event, the first event to settle, has code
  \<open>ENOENT\<close>), the promise is rejected with a new error whose message contains the
  command \<open>run\<close> was called with and names the environment variable
  \<open>CURSOR_AGENT_BIN\<close>; it is never resolved, whatever is delivered later.
\<close>

theorem run_rejects_not_found:
  assumes "spawned w cmd args opts = Some ch"
      and "list_all (\<lambda>e. \<not> settles e) pre"
      and "err_code err = Some ''ENOENT''"
  shows "promise (run w cmd args opts (pre @ ErrorEvent err # post)) =
           Some (Rejected (NewError (not_found_message cmd)))
         \<and> (\<forall>r. promise (run w cmd args opts (pre @ ErrorEvent err # post))
                  \<noteq> Some (Resolved r))
         \<and> sublist cmd (not_found_message cmd)
         \<and> sublist ''CURSOR_AGENT_BIN'' (not_found_message cmd)"
proof -
  have "sublist cmd (not_found_message cmd)"
    unfolding not_found_message_def by (rule sublist_appendI)
  moreover have "sublist ''CURSOR_AGENT_BIN'' (not_found_message cmd)"
    unfolding not_found_message_def sublist_def
    by (rule exI[of _ "''Command not found: '' @ cmd
          @ ''. Install Cursor CLI (agent) or set ''"],
        rule exI[of _ "'' to its path.''"]) simp
  ultimately show ?thesis
    using error_event_rejects[OF assms(1,2), of err post] assms(3) by simp
qed

theorem run_rejects_not_found_witness:
  "spawned unix_world ''agent'' [''-p''] no_options =
     Some \<lparr>has_stdin = False, has_stdout = True, has_stderr = True\<rparr>
   \<and> promise (run unix_world ''agent'' [''-p''] no_options
        [ErrorEvent (ErrnoException (Some ''ENOENT'') ''spawn agent ENOENT''),
         CloseEvent (Some (- 2))]) =
      Some (Rejected (NewError
        ''Command not found: agent. Install Cursor CLI (agent) or set CURSOR_AGENT_BIN to its path.''))"
proof -
  have sp: "spawned unix_world ''agent'' [''-p''] no_options =
     Some \<lparr>has_stdin = False, has_stdout = True, has_stderr = True\<rparr>"
    by (simp add: unix_spawned no_options_def truthy_def)
  have nil: "list_all (\<lambda>e. \<not> settles e) []"
    by simp
  have c: "err_code (ErrnoException (Some ''ENOENT'') ''spawn agent ENOENT'') = Some ''ENOENT''"
    by simp
  show ?thesis
    using run_rejects_not_found [OF sp nil c, of "[CloseEvent (Some (- 2))]"] sp
    by (simp add: not_found_message_def)
qed

text \<open>
  Claim C9. When starting the child fails with an error whose code is not \<open>ENOENT\<close>,
  the promise is rejected with that very error object: for an \<open>error\<close> event that is
  the first event to settle, and also when the \<open>spawn\<close> call itself throws (then
  whatever the code).
\<close>

theorem run_rejects_with_platform_error:
  "(spawned w cmd args opts = Some ch \<and> list_all (\<lambda>e. \<not> settles e) pre
      \<and> err_code err \<noteq> Some ''ENOENT''
    \<longrightarrow> promise (run w cmd args opts (pre @ ErrorEvent err # post)) =
          Some (Rejected (PlatformError err)))
   \<and> (resolveWindowsCursorAgent w cmd = Returned res
      \<and> spawn w (fst (actual_invocation w res cmd args))
            (snd (actual_invocation w res cmd args)) (spawn_options_for w opts) = Inl e
    \<longrightarrow> promise (run w cmd args opts evs) = Some (Rejected (PlatformError e)))"
  using error_event_rejects[of w cmd args opts ch pre err post]
    spawn_throws_rejects[of w cmd res args opts e evs]
  by simp

theorem run_rejects_with_platform_error_witness:
  "spawned unix_world ''agent'' [] no_options =
     Some \<lparr>has_stdin = False, has_stdout = True, has_stderr = True\<rparr>
   \<and> err_code (ErrnoException (Some ''EACCES'') ''spawn agent EACCES'') \<noteq> Some ''ENOENT''
   \<and> promise (run unix_world ''agent'' [] no_options
        [ErrorEvent (ErrnoException (Some ''EACCES'') ''spawn agent EACCES''),
         CloseEvent (Some (- 13))]) =
      Some (Rejected (PlatformError (ErrnoException (Some ''EACCES'') ''spawn agent EACCES'')))
   \<and> promise (run (unix_world\<lparr>spawn := (\<lambda>c a so. Inl (ErrnoException (Some ''ENOMEM'') ''spawn ENOMEM''))\<rparr>)
        ''agent'' [] no_options []) =
      Some (Rejected (PlatformError (ErrnoException (Some ''ENOMEM'') ''spawn ENOMEM'')))"
proof -
  have sp: "spawned unix_world ''agent'' [] no_options =
     Some \<lparr>has_stdin = False, has_stdout = True, has_stderr = True\<rparr>"
    by (simp add: unix_spawned no_options_def truthy_def)
  have r: "resolveWindowsCursorAgent
             (unix_world\<lparr>spawn := (\<lambda>c a so. Inl (ErrnoException (Some ''ENOMEM'') ''spawn ENOMEM''))\<rparr>)
             ''agent'' = Returned None"
    by (simp add: resolveWindowsCursorAgent_def unix_world_def)
  show ?thesis
    using run_rejects_with_platform_error
        [of unix_world "''agent''" "[]" no_options
            "\<lparr>has_stdin = False, has_stdout = True, has_stderr = True\<rparr>" "[]"
            "ErrnoException (Some ''EACCES'') ''spawn agent EACCES''"
            "[CloseEvent (Some (- 13))]" None "ErrnoException (Some ''ENOMEM'') ''spawn ENOMEM''" "[]"]
      run_rejects_with_platform_error
        [of "unix_world\<lparr>spawn := (\<lambda>c a so. Inl (ErrnoException (Some ''ENOMEM'') ''spawn ENOMEM''))\<rparr>"
            "''agent''" "[]" no_options
            "\<lparr>has_stdin = False, has_stdout = True, has_stderr = True\<rparr>" "[]"
            "ErrnoException (Some ''EACCES'') ''spawn agent EACCES''"
            "[]" None "ErrnoException (Some ''ENOMEM'') ''spawn ENOMEM''" "[]"]
      sp r
    by simp
qed

text \<open>
  Claim C5. The claim as written fails in one point: when \<open>COMSPEC\<close> is set to the empty
  string, the interpreter spawned is \<open>cmd.exe\<close>, not the one the variable names.
\<close>

theorem empty_comspec_counterexample:
  "process_env empty_comspec_world ''COMSPEC'' = Some []
   \<and> resolveWindowsCursorAgent empty_comspec_world ''build.bat'' = Returned None
   \<and> effects (run empty_comspec_world ''build.bat'' [''all''] no_options []) =
       [Spawn ''cmd.exe'' [''/d'', ''/s'', ''/c'', ''build.bat'', ''all'']
          (spawn_options_for empty_comspec_world no_options)]"
  by (simp add: empty_comspec_world_def windows_world_def run_def
      resolveWindowsCursorAgent_def endsWith_def suffix_to_prefix
      actual_invocation_def or_default_def executor_def no_options_def timeout_for_def
      spawn_options_for_def)

text \<open>
  Claim C5, amended. Once the resolution has returned, \<open>run\<close> makes exactly one \<open>spawn\<close>
  call. If the resolution returned a redirection, the call is for its interpreter with
  its one entry script put before the caller's arguments, which keep their order.
  Otherwise, on Windows and for a command that ends in \<open>.cmd\<close> or \<open>.bat\<close> or is \<open>agent\<close>,
  the call is for the interpreter named by \<open>COMSPEC\<close>, or \<open>cmd.exe\<close> when the variable is
  unset or empty, with \<open>/d /s /c\<close>, the command and the arguments. In every other case
  the call is for the command and the arguments as given.
\<close>

theorem run_spawns_selected_invocation:
  assumes "resolveWindowsCursorAgent w cmd = Returned res"
  shows "(\<forall>r. res = Some r \<longrightarrow>
            (\<exists>nodeExe script. r = \<lparr>resolved_cmd = nodeExe, argsPrefix = [script]\<rparr>
               \<and> filter is_spawn (effects (run w cmd args opts evs)) =
                   [Spawn nodeExe (script # args) (spawn_options_for w opts)]))
       \<and> (res = None \<and> process_platform w = ''win32''
            \<and> (endsWith cmd ''.cmd'' \<or> endsWith cmd ''.bat'' \<or> cmd = ''agent'')
          \<longrightarrow> filter is_spawn (effects (run w cmd args opts evs)) =
                [Spawn (case process_env w ''COMSPEC'' of
                          None \<Rightarrow> ''cmd.exe''
                        | Some v \<Rightarrow> if v = [] then ''cmd.exe'' else v)
                   (''/d'' # ''/s'' # ''/c'' # cmd # args) (spawn_options_for w opts)])
       \<and> (res = None \<and> \<not> (process_platform w = ''win32''
            \<and> (endsWith cmd ''.cmd'' \<or> endsWith cmd ''.bat'' \<or> cmd = ''agent''))
          \<longrightarrow> filter is_spawn (effects (run w cmd args opts evs)) =
                [Spawn cmd args (spawn_options_for w opts)])"
proof -
  note sp = run_spawn_calls[OF assms, of args opts evs]
  have 1: "\<exists>nodeExe script. r = \<lparr>resolved_cmd = nodeExe, argsPrefix = [script]\<rparr>
               \<and> filter is_spawn (effects (run w cmd args opts evs)) =
                   [Spawn nodeExe (script # args) (spawn_options_for w opts)]"
    if "res = Some r" for r
  proof -
    have "resolveWindowsCursorAgent w cmd = Returned (Some r)"
      using assms that by simp
    from resolved_shape[OF this]
    obtain nodeExe script where r: "r = \<lparr>resolved_cmd = nodeExe, argsPrefix = [script]\<rparr>"
      by blast
    then show ?thesis using sp that by (simp add: actual_invocation_def)
  qed
  have 2: "filter is_spawn (effects (run w cmd args opts evs)) =
                [Spawn (case process_env w ''COMSPEC'' of
                          None \<Rightarrow> ''cmd.exe''
                        | Some v \<Rightarrow> if v = [] then ''cmd.exe'' else v)
                   (''/d'' # ''/s'' # ''/c'' # cmd # args) (spawn_options_for w opts)]"
    if "res = None" "process_platform w = ''win32''"
       "endsWith cmd ''.cmd'' \<or> endsWith cmd ''.bat'' \<or> cmd = ''agent''"
    using sp that by (simp add: actual_invocation_def or_default_def split: option.splits)
  have 3: "filter is_spawn (effects (run w cmd args opts evs)) =
                [Spawn cmd args (spawn_options_for w opts)]"
    if "res = None" "\<not> (process_platform w = ''win32''
            \<and> (endsWith cmd ''.cmd'' \<or> endsWith cmd ''.bat'' \<or> cmd = ''agent''))"
    using sp that by (auto simp add: actual_invocation_def)
  show ?thesis using 1 2 3 by blast
qed

theorem run_spawns_selected_invocation_witness:
  "resolveWindowsCursorAgent windows_world ''agent'' =
     Returned (Some \<lparr>resolved_cmd = ''C:/cursor/versions/2024.10.1-def456/node.exe'',
                     argsPrefix = [''C:/cursor/versions/2024.10.1-def456/index.js'']\<rparr>)
   \<and> filter is_spawn (effects (run windows_world ''agent'' [''-p'', ''hi''] no_options
        [CloseEvent (Some 0)])) =
       [Spawn ''C:/cursor/versions/2024.10.1-def456/node.exe''
          [''C:/cursor/versions/2024.10.1-def456/index.js'', ''-p'', ''hi'']
          (spawn_options_for windows_world no_options)]
   \<and> resolveWindowsCursorAgent windows_world ''build.bat'' = Returned None
   \<and> filter is_spawn (effects (run windows_world ''build.bat'' [''all''] no_options [])) =
       [Spawn ''C:/Windows/system32/cmd.exe'' [''/d'', ''/s'', ''/c'', ''build.bat'', ''all'']
          (spawn_options_for windows_world no_options)]
   \<and> resolveWindowsCursorAgent unix_world ''agent'' = Returned None
   \<and> filter is_spawn (effects (run unix_world ''agent'' [''-p''] no_options [])) =
       [Spawn ''agent'' [''-p''] (spawn_options_for unix_world no_options)]"
proof -
  have r1: "resolveWindowsCursorAgent windows_world ''agent'' =
     Returned (Some \<lparr>resolved_cmd = ''C:/cursor/versions/2024.10.1-def456/node.exe'',
                     argsPrefix = [''C:/cursor/versions/2024.10.1-def456/index.js'']\<rparr>)"
    by code_simp
  have r2: "resolveWindowsCursorAgent windows_world ''build.bat'' = Returned None"
    by code_simp
  have r3: "resolveWindowsCursorAgent unix_world ''agent'' = Returned None"
    by (simp add: resolveWindowsCursorAgent_def unix_world_def)
  have b: "endsWith ''build.bat'' ''.bat''" by code_simp
  have p: "process_platform windows_world = ''win32''" "process_platform unix_world = ''linux''"
    "process_env windows_world ''COMSPEC'' = Some ''C:/Windows/system32/cmd.exe''"
    by (simp_all add: windows_world_def unix_world_def)
  show ?thesis
    using run_spawns_selected_invocation[OF r1, of "[''-p'', ''hi'']" no_options "[CloseEvent (Some 0)]"]
      run_spawns_selected_invocation[OF r2, of "[''all'']" no_options "[]"]
      run_spawns_selected_invocation[OF r3, of "[''-p'']" no_options "[]"]
      r1 r2 r3 b p
    by simp
qed

text \<open>
  Claim C6. Once \<open>spawn\<close> has returned a child, the timer is armed if and only if
  \<open>timeoutMs\<close> is a number greater than zero: \<open>setTimeout\<close> is called once with that
  delay in that case and never otherwise. When the timer fires while armed, before any
  \<open>close\<close> or \<open>error\<close> event, the child is sent \<open>SIGKILL\<close>, the first signal it is sent.
  With \<open>timeoutMs\<close> absent or not greater than zero no signal is ever sent.
\<close>

theorem timeout_timer:
  assumes "spawned w cmd args opts = Some ch"
  shows "(timer_armed (run w cmd args opts []) \<longleftrightarrow>
            (\<exists>n. timeoutMs opts = Some n \<and> greater_than_zero n))
       \<and> filter is_set_timeout (effects (run w cmd args opts evs)) =
           (case timeoutMs opts of
              None \<Rightarrow> []
            | Some n \<Rightarrow> if greater_than_zero n then [SetTimeout n] else [])
       \<and> ((\<exists>n. timeoutMs opts = Some n \<and> greater_than_zero n)
            \<and> list_all (\<lambda>e. \<not> settles e \<and> e \<noteq> TimerFires) pre
          \<longrightarrow> filter is_kill (effects (run w cmd args opts pre)) = []
              \<and> effects (run w cmd args opts (pre @ [TimerFires])) =
                  effects (run w cmd args opts pre) @ [Kill ''SIGKILL''])
       \<and> (\<not> (\<exists>n. timeoutMs opts = Some n \<and> greater_than_zero n)
          \<longrightarrow> filter is_kill (effects (run w cmd args opts evs)) = [])"
proof -
  let ?s0 = "run w cmd args opts []"
  note ev = run_events[OF assms]
  have armed0: "timer_armed ?s0 = (\<exists>n. timeoutMs opts = Some n \<and> greater_than_zero n)"
    using run_spawned(7)[OF assms] timeout_for_Some by simp
  obtain c a where fx0: "effects ?s0 =
           Spawn c a (spawn_options_for w opts)
           # (case stdin opts of
                None \<Rightarrow> []
              | Some text \<Rightarrow>
                  if text \<noteq> [] \<and> has_stdin ch then [StdinWrite text, StdinEnd] else [])
           @ (case timeout_for opts of None \<Rightarrow> [] | Some n \<Rightarrow> [SetTimeout n])"
    using run_executor_effects[OF assms] by blast
  have nokill0: "filter is_kill (effects ?s0) = []"
    unfolding fx0 by (simp split: option.splits)
  have set0: "filter is_set_timeout (effects ?s0) =
           (case timeoutMs opts of
              None \<Rightarrow> []
            | Some n \<Rightarrow> if greater_than_zero n then [SetTimeout n] else [])"
    unfolding fx0 by (simp add: timeout_for_def split: option.splits)
  have 2: "filter is_set_timeout (effects (run w cmd args opts evs)) =
           (case timeoutMs opts of
              None \<Rightarrow> []
            | Some n \<Rightarrow> if greater_than_zero n then [SetTimeout n] else [])"
  proof -
    obtain later where "effects (foldl (on_event cmd) ?s0 evs) = effects ?s0 @ later"
      "list_all from_callback later"
      using events_effects by blast
    then show ?thesis using ev[of evs] set0 by (simp add: from_callback_filters)
  qed
  have 3: "filter is_kill (effects (run w cmd args opts pre)) = []
              \<and> effects (run w cmd args opts (pre @ [TimerFires])) =
                  effects (run w cmd args opts pre) @ [Kill ''SIGKILL'']"
    if "\<exists>n. timeoutMs opts = Some n \<and> greater_than_zero n"
       "list_all (\<lambda>e. \<not> settles e \<and> e \<noteq> TimerFires) pre"
  proof -
    have q: "timer_armed (foldl (on_event cmd) ?s0 pre) = timer_armed ?s0"
       "effects (foldl (on_event cmd) ?s0 pre) = effects ?s0"
      using events_quiet[OF that(2), of cmd ?s0] by simp_all
    have "timer_armed (foldl (on_event cmd) ?s0 pre)" using q armed0 that(1) by simp
    then show ?thesis
      using ev[of pre] ev[of "pre @ [TimerFires]"] q nokill0 by simp
  qed
  have 4: "filter is_kill (effects (run w cmd args opts evs)) = []"
    if "\<not> (\<exists>n. timeoutMs opts = Some n \<and> greater_than_zero n)"
  proof -
    have "\<not> timer_armed ?s0" using armed0 that by simp
    from events_disarmed[OF this, of cmd evs] show ?thesis
      using ev[of evs] nokill0 by simp
  qed
  show ?thesis using armed0 2 3 4 by blast
qed

theorem timeout_timer_witness:
  "spawned unix_world ''sleep'' [''60'']
       \<lparr>cwd = None, timeoutMs = Some (Finite 1000), stdin = None\<rparr> =
     Some \<lparr>has_stdin = False, has_stdout = True, has_stderr = True\<rparr>
   \<and> timer_armed (run unix_world ''sleep'' [''60'']
       \<lparr>cwd = None, timeoutMs = Some (Finite 1000), stdin = None\<rparr> [])
   \<and> effects (run unix_world ''sleep'' [''60'']
       \<lparr>cwd = None, timeoutMs = Some (Finite 1000), stdin = None\<rparr>
       [StdoutData ''z'', TimerFires]) =
     effects (run unix_world ''sleep'' [''60'']
       \<lparr>cwd = None, timeoutMs = Some (Finite 1000), stdin = None\<rparr> [StdoutData ''z''])
     @ [Kill ''SIGKILL'']
   \<and> \<not> timer_armed (run unix_world ''sleep'' [''60'']
       \<lparr>cwd = None, timeoutMs = Some (Finite 0), stdin = None\<rparr> [])
   \<and> \<not> timer_armed (run unix_world ''sleep'' [''60'']
       \<lparr>cwd = None, timeoutMs = Some NaN, stdin = None\<rparr> [])
   \<and> filter is_kill (effects (run unix_world ''sleep'' [''60''] no_options
       [TimerFires, CloseEvent None])) = []"
proof -
  have sp: "spawned unix_world ''sleep'' [''60''] opts =
     Some \<lparr>has_stdin = False, has_stdout = True, has_stderr = True\<rparr>"
    if "stdin opts = None" for opts
    using that by (simp add: unix_spawned truthy_def)
  have pre: "list_all (\<lambda>e. \<not> settles e \<and> e \<noteq> TimerFires) [StdoutData ''z'']"
    by simp
  show ?thesis
    using timeout_timer[OF sp, of "\<lparr>cwd = None, timeoutMs = Some (Finite 1000), stdin = None\<rparr>"
            "[]" "[StdoutData ''z'']"]
      timeout_timer[OF sp, of "\<lparr>cwd = None, timeoutMs = Some (Finite 0), stdin = None\<rparr>"
            "[]" "[]"]
      timeout_timer[OF sp, of "\<lparr>cwd = None, timeoutMs = Some NaN, stdin = None\<rparr>"
            "[]" "[]"]
      timeout_timer[OF sp, of no_options "[TimerFires, CloseEvent None]" "[]"]
      sp[of "\<lparr>cwd = None, timeoutMs = Some (Finite 1000), stdin = None\<rparr>"] pre
    by (simp add: no_options_def)
qed

text \<open>
  Claim C7. Whenever the promise of \<open>run\<close> is settled the timer is not armed, so the
  expiry of the timer after that sends no signal; and in the effect log every call of
  \<open>resolve\<close> or \<open>reject\<close> that follows the creation of a timer comes right after the
  \<open>clearTimeout\<close> call of the same callback.
\<close>

theorem timer_cleared_when_settled:
  "(promise (run w cmd args opts evs) \<noteq> None \<longrightarrow> \<not> timer_armed (run w cmd args opts evs))
   \<and> (promise (run w cmd args opts pre) \<noteq> None
      \<longrightarrow> filter is_kill (effects (run w cmd args opts (pre @ post))) =
            filter is_kill (effects (run w cmd args opts pre)))
   \<and> (\<forall>xs e ys. effects (run w cmd args opts evs) = xs @ e # ys \<and> settle_call e
          \<and> list_ex is_set_timeout xs
        \<longrightarrow> xs \<noteq> [] \<and> last xs = ClearTimeout)"
proof -
  note inv = run_log_inv[of w cmd args opts]
  have 1: "promise (run w cmd args opts evs) \<noteq> None \<longrightarrow> \<not> timer_armed (run w cmd args opts evs)"
    using inv[of evs] by (simp add: log_inv_def)
  have 2: "filter is_kill (effects (run w cmd args opts (pre @ post))) =
            filter is_kill (effects (run w cmd args opts pre))"
    if p: "promise (run w cmd args opts pre) \<noteq> None"
  proof (cases "spawned w cmd args opts")
    case None
    then have "run w cmd args opts (pre @ post) = run w cmd args opts pre"
      by (auto simp: spawned_def run_def Let_def split: completion.splits sum.splits)
    then show ?thesis by simp
  next
    case (Some ch)
    have "\<not> timer_armed (run w cmd args opts pre)"
      using inv[of pre] p by (simp add: log_inv_def)
    from events_disarmed[OF this, of cmd post] show ?thesis
      using run_events[OF Some, of "pre @ post"] run_events[OF Some, of pre] by simp
  qed
  have 3: "\<forall>xs e ys. effects (run w cmd args opts evs) = xs @ e # ys \<and> settle_call e
          \<and> list_ex is_set_timeout xs
        \<longrightarrow> xs \<noteq> [] \<and> last xs = ClearTimeout"
    using inv[of evs] unfolding log_inv_def cleared_before_settling_def by blast
  show ?thesis using 1 2 3 by blast
qed


theorem timer_cleared_when_settled_witness:
  "promise (run unix_world ''sleep'' [''60'']
       \<lparr>cwd = None, timeoutMs = Some (Finite 1000), stdin = None\<rparr> [CloseEvent (Some 0)]) =
     Some (Resolved \<lparr>code = 0, stdout = [], stderr = []\<rparr>)
   \<and> \<not> timer_armed (run unix_world ''sleep'' [''60'']
       \<lparr>cwd = None, timeoutMs = Some (Finite 1000), stdin = None\<rparr> [CloseEvent (Some 0)])
   \<and> filter is_kill (effects (run unix_world ''sleep'' [''60'']
       \<lparr>cwd = None, timeoutMs = Some (Finite 1000), stdin = None\<rparr>
       ([CloseEvent (Some 0)] @ [TimerFires]))) = []
   \<and> effects (run unix_world ''sleep'' [''60'']
       \<lparr>cwd = None, timeoutMs = Some (Finite 1000), stdin = None\<rparr> [CloseEvent (Some 0)]) =
       [Spawn ''sleep'' [''60'']
          (spawn_options_for unix_world
             \<lparr>cwd = None, timeoutMs = Some (Finite 1000), stdin = None\<rparr>),
        SetTimeout (Finite 1000)]
       @ ClearTimeout # [CallResolve \<lparr>code = 0, stdout = [], stderr = []\<rparr>]
   \<and> last [Spawn ''sleep'' [''60'']
          (spawn_options_for unix_world
             \<lparr>cwd = None, timeoutMs = Some (Finite 1000), stdin = None\<rparr>),
        SetTimeout (Finite 1000), ClearTimeout] = ClearTimeout"
proof -
  let ?o = "\<lparr>cwd = None, timeoutMs = Some (Finite 1000), stdin = None\<rparr>"
  have fx: "effects (run unix_world ''sleep'' [''60''] ?o [CloseEvent (Some 0)]) =
       [Spawn ''sleep'' [''60''] (spawn_options_for unix_world ?o),
        SetTimeout (Finite 1000), ClearTimeout]
       @ CallResolve \<lparr>code = 0, stdout = [], stderr = []\<rparr> # []"
    by (simp add: run_def unix_world_def resolveWindowsCursorAgent_def
      actual_invocation_def spawn_options_for_def truthy_def executor_def timeout_for_def
      clear_timeout_def resolve_def)
  have p: "promise (run unix_world ''sleep'' [''60''] ?o [CloseEvent (Some 0)]) =
     Some (Resolved \<lparr>code = 0, stdout = [], stderr = []\<rparr>)"
    by (simp add: run_def unix_world_def resolveWindowsCursorAgent_def
      actual_invocation_def spawn_options_for_def truthy_def executor_def timeout_for_def
      clear_timeout_def resolve_def)
  have k: "filter is_kill (effects (run unix_world ''sleep'' [''60''] ?o [CloseEvent (Some 0)])) = []"
    unfolding fx by simp
  have st: "settle_call (CallResolve \<lparr>code = 0, stdout = [], stderr = []\<rparr>)"
    "list_ex is_set_timeout [Spawn ''sleep'' [''60''] (spawn_options_for unix_world ?o),
        SetTimeout (Finite 1000), ClearTimeout]"
    by simp_all
  note t = timer_cleared_when_settled[of unix_world "''sleep''" "[''60'']" ?o
      "[CloseEvent (Some 0)]" "[CloseEvent (Some 0)]" "[TimerFires]"]
  from t p have a: "\<not> timer_armed (run unix_world ''sleep'' [''60''] ?o [CloseEvent (Some 0)])"
    by simp
  from t p k have b: "filter is_kill (effects (run unix_world ''sleep'' [''60''] ?o
       ([CloseEvent (Some 0)] @ [TimerFires]))) = []"
    by simp
  from t fx st have c: "last [Spawn ''sleep'' [''60''] (spawn_options_for unix_world ?o),
        SetTimeout (Finite 1000), ClearTimeout] = ClearTimeout"
    by blast
  show ?thesis using p a b c fx by simp
qed

text \<open>
  Claim C8. The claim as written fails for the empty string: with \<open>stdin: ""\<close> in the
  options the input stream is not connected and nothing is written.
\<close>

theorem empty_stdin_counterexample:
  "sp_stdio (spawn_options_for unix_world \<lparr>cwd = None, timeoutMs = None, stdin = Some []\<rparr>)
     = [Ignore, Pipe, Pipe]
   \<and> effects (run unix_world ''cat'' [] \<lparr>cwd = None, timeoutMs = None, stdin = Some []\<rparr> []) =
       [Spawn ''cat'' []
          (spawn_options_for unix_world \<lparr>cwd = None, timeoutMs = None, stdin = Some []\<rparr>)]"
  by (simp add: run_def unix_world_def resolveWindowsCursorAgent_def
      actual_invocation_def spawn_options_for_def truthy_def executor_def timeout_for_def)

text \<open>
  Claim C8, amended. The child's input stream is connected (\<open>pipe\<close>) if and only if the
  options hold a non-empty input text, and is \<open>ignore\<close> otherwise, when nothing is ever
  written. When it is connected and the child has the stream, the text is written in
  one \<open>write\<close> right after \<open>spawn\<close> and the stream is ended right after it; nothing else
  is done to the stream. So a child that has the input stream it was given, and whose
  output up to its \<open>close\<close> event is what was written to its input, yields a result
  whose \<open>stdout\<close> is the input text (the empty text included).
\<close>

theorem stdin_written_then_closed:
  "(sp_stdio (spawn_options_for w opts) ! 0 = Pipe \<longleftrightarrow> (\<exists>t. stdin opts = Some t \<and> t \<noteq> []))
   \<and> (\<not> (\<exists>t. stdin opts = Some t \<and> t \<noteq> [])
        \<longrightarrow> sp_stdio (spawn_options_for w opts) ! 0 = Ignore
            \<and> filter on_stdin (effects (run w cmd args opts evs)) = [])
   \<and> (spawned w cmd args opts = Some ch \<and> has_stdin ch \<and> stdin opts = Some t \<and> t \<noteq> []
        \<longrightarrow> (\<exists>c a rest. effects (run w cmd args opts evs) =
                 Spawn c a (spawn_options_for w opts) # StdinWrite t # StdinEnd # rest
               \<and> filter on_stdin rest = []))
   \<and> (spawned w cmd args opts = Some ch
        \<and> has_stdin ch = (sp_stdio (spawn_options_for w opts) ! 0 = Pipe) \<and> has_stdout ch
        \<and> stdin opts = Some t \<and> list_all (\<lambda>e. \<not> settles e) pre
        \<and> stdout_text pre = stdin_written (effects (run w cmd args opts pre))
        \<longrightarrow> (\<exists>r. promise (run w cmd args opts (pre @ CloseEvent c # post)) = Some (Resolved r)
               \<and> stdout r = t))"
proof -
  have 2: "sp_stdio (spawn_options_for w opts) ! 0 = Ignore
            \<and> filter on_stdin (effects (run w cmd args opts evs)) = []"
    if "\<not> (\<exists>t. stdin opts = Some t \<and> t \<noteq> [])"
    using that run_stdin_effects[of w cmd args opts evs]
    by (auto simp: spawn_options_for_def truthy_def split: option.splits)
  have 3: "\<exists>c a rest. effects (run w cmd args opts evs) =
                 Spawn c a (spawn_options_for w opts) # StdinWrite t # StdinEnd # rest
               \<and> filter on_stdin rest = []"
    if "spawned w cmd args opts = Some ch" "has_stdin ch" "stdin opts = Some t" "t \<noteq> []"
  proof -
    from run_effects[OF that(1), of evs] obtain res later where
      l: "list_all from_callback later" and
      fx: "effects (run w cmd args opts evs) =
               Spawn (fst (actual_invocation w res cmd args))
                 (snd (actual_invocation w res cmd args)) (spawn_options_for w opts)
               # (case stdin opts of
                    None \<Rightarrow> []
                  | Some text \<Rightarrow>
                      if text \<noteq> [] \<and> has_stdin ch then [StdinWrite text, StdinEnd] else [])
               @ (case timeout_for opts of None \<Rightarrow> [] | Some n \<Rightarrow> [SetTimeout n])
               @ later"
      by blast
    have "filter on_stdin later = []" using l by (rule from_callback_filters)
    then show ?thesis using fx that(2-4) by (auto split: option.splits)
  qed
  have 4: "\<exists>r. promise (run w cmd args opts (pre @ CloseEvent c # post)) = Some (Resolved r)
               \<and> stdout r = t"
    if sp: "spawned w cmd args opts = Some ch"
      and h: "has_stdin ch = (sp_stdio (spawn_options_for w opts) ! 0 = Pipe)" "has_stdout ch"
         "stdin opts = Some t"
      and pre: "list_all (\<lambda>e. \<not> settles e) pre"
      and echo: "stdout_text pre = stdin_written (effects (run w cmd args opts pre))"
  proof -
    have "stdin_written (effects (run w cmd args opts pre)) = t"
      using run_stdin_written[OF sp, of pre] h stdio_stdin[of w opts] by auto
    then show ?thesis
      using close_event_resolves[OF sp pre, of c post] echo h(2) by simp
  qed
  show ?thesis using stdio_stdin[of w opts] 2 3 4 by blast
qed

theorem stdin_written_then_closed_witness:
  "spawned unix_world ''cat'' [] \<lparr>cwd = None, timeoutMs = None, stdin = Some ''hello''\<rparr> =
     Some \<lparr>has_stdin = True, has_stdout = True, has_stderr = True\<rparr>
   \<and> sp_stdio (spawn_options_for unix_world
        \<lparr>cwd = None, timeoutMs = None, stdin = Some ''hello''\<rparr>) ! 0 = Pipe
   \<and> effects (run unix_world ''cat'' []
        \<lparr>cwd = None, timeoutMs = None, stdin = Some ''hello''\<rparr> []) =
       [Spawn ''cat'' []
          (spawn_options_for unix_world \<lparr>cwd = None, timeoutMs = None, stdin = Some ''hello''\<rparr>),
        StdinWrite ''hello'', StdinEnd]
   \<and> stdout_text [StdoutData ''hel'', StdoutData ''lo''] =
       stdin_written (effects (run unix_world ''cat'' []
         \<lparr>cwd = None, timeoutMs = None, stdin = Some ''hello''\<rparr>
         [StdoutData ''hel'', StdoutData ''lo'']))
   \<and> (\<exists>r. promise (run unix_world ''cat'' []
         \<lparr>cwd = None, timeoutMs = None, stdin = Some ''hello''\<rparr>
         ([StdoutData ''hel'', StdoutData ''lo''] @ CloseEvent (Some 0) # [])) = Some (Resolved r)
        \<and> stdout r = ''hello'')
   \<and> sp_stdio (spawn_options_for unix_world no_options) ! 0 = Ignore"
proof -
  let ?o = "\<lparr>cwd = None, timeoutMs = None, stdin = Some ''hello''\<rparr>"
  let ?ch = "\<lparr>has_stdin = True, has_stdout = True, has_stderr = True\<rparr>"
  have sp: "spawned unix_world ''cat'' [] ?o = Some ?ch"
    by (simp add: unix_spawned truthy_def)
  have io: "sp_stdio (spawn_options_for unix_world ?o) ! 0 = Pipe"
    by (simp add: spawn_options_for_def truthy_def)
  have fx: "effects (run unix_world ''cat'' [] ?o []) =
       [Spawn ''cat'' [] (spawn_options_for unix_world ?o), StdinWrite ''hello'', StdinEnd]"
    by (simp add: run_def unix_world_def resolveWindowsCursorAgent_def
      actual_invocation_def spawn_options_for_def truthy_def executor_def timeout_for_def)
  have echo: "stdout_text [StdoutData ''hel'', StdoutData ''lo''] =
       stdin_written (effects (run unix_world ''cat'' [] ?o
         [StdoutData ''hel'', StdoutData ''lo'']))"
    by (simp add: run_def unix_world_def resolveWindowsCursorAgent_def
      actual_invocation_def spawn_options_for_def truthy_def executor_def timeout_for_def
      stdout_text_def stdin_written_def)
  have pre: "list_all (\<lambda>e. \<not> settles e) [StdoutData ''hel'', StdoutData ''lo'']"
    by simp
  have n: "\<not> (\<exists>t. stdin no_options = Some t \<and> t \<noteq> [])"
    by (simp add: no_options_def)
  note t = stdin_written_then_closed[of unix_world ?o "''cat''" "[]" "[]" ?ch "''hello''"
      "[StdoutData ''hel'', StdoutData ''lo'']" "Some 0" "[]"]
  note t' = stdin_written_then_closed[of unix_world no_options "''cat''" "[]" "[]" ?ch "''hello''"
      "[]" "Some 0" "[]"]
  from t sp io pre echo
  have r: "\<exists>r. promise (run unix_world ''cat'' [] ?o
         ([StdoutData ''hel'', StdoutData ''lo''] @ CloseEvent (Some 0) # [])) = Some (Resolved r)
        \<and> stdout r = ''hello''"
    by simp
  from t' n have i: "sp_stdio (spawn_options_for unix_world no_options) ! 0 = Ignore"
    by blast
  show ?thesis using sp io fx echo r i by blast
qed

section \<open>Properties of the plugin\<close>

text \<open>
  Claim C10. The agent command is chosen with a fixed precedence: \<open>CURSOR_AGENT_BIN\<close> if
  it is set and not empty, else \<open>CURSOR_CLI_BIN\<close>, else \<open>CURSOR_CLI_PATH\<close> (each under
  the same test), else the literal \<open>agent\<close>: the result is the first non-empty value
  among those the three variables hold, read in that order, and \<open>agent\<close> when there is
  none. So a non-empty \<open>CURSOR_AGENT_BIN\<close> is the result whatever the two others hold.
\<close>

theorem getCursorAgentBin_precedence:
  "getCursorAgentBin env =
     (case filter (\<lambda>v. v \<noteq> [])
             (List.map_filter env [''CURSOR_AGENT_BIN'', ''CURSOR_CLI_BIN'', ''CURSOR_CLI_PATH''])
      of [] \<Rightarrow> ''agent'' | v # _ \<Rightarrow> v)
   \<and> (\<forall>v. env ''CURSOR_AGENT_BIN'' = Some v \<longrightarrow> v \<noteq> [] \<longrightarrow> getCursorAgentBin env = v)"
  by (simp add: getCursorAgentBin_def js_or_def or_default_def truthy_def
      split: option.splits)

theorem getCursorAgentBin_precedence_witness:
  "three_bins ''CURSOR_AGENT_BIN'' = Some ''/opt/a'' \<and> ''/opt/a'' \<noteq> []
   \<and> getCursorAgentBin three_bins = ''/opt/a''
   \<and> getCursorAgentBin (\<lambda>v. None) = ''agent''
   \<and> getCursorAgentBin (three_bins(''CURSOR_AGENT_BIN'' := Some [])) = ''/opt/b''"
  using getCursorAgentBin_precedence [of three_bins]
    getCursorAgentBin_precedence [of "\<lambda>v. None"]
    getCursorAgentBin_precedence [of "three_bins(''CURSOR_AGENT_BIN'' := Some [])"]
  by (simp add: three_bins_def)

end
